theory Spec2Isabelle
  imports Complex_Main "HOL-Library.Log_Nat"
begin

section \<open>The VMware management server: data model\<close>

text \<open>
  The theory embeds the orchestration layer of the ESXi MCP server:
  \<^verbatim>\<open>vmware_manager.py\<close> (class \<^verbatim>\<open>VMwareManager\<close>), \<^verbatim>\<open>tools.py\<close> (class
  \<^verbatim>\<open>ToolHandlers\<close>) and the dispatch of \<^verbatim>\<open>mcp_server.py\<close>. The vSphere control
  plane is an opaque remote system: its inventory is data the functions read, and a
  task it hands out is the sequence of states the client observes when it polls.
\<close>

subsection \<open>Python exceptions\<close>

text \<open>
  The source raises three things: the built-in \<^verbatim>\<open>Exception(msg)\<close>, the built-in
  \<^verbatim>\<open>ValueError(msg)\<close>, and \<^verbatim>\<open>task.info.error\<close>, the fault object of a failed
  task. \<^verbatim>\<open>TypeError\<close> and \<^verbatim>\<open>ZeroDivisionError\<close> are what Python itself raises
  when a call cannot bind its keywords or an operand is \<^verbatim>\<open>None\<close>, and when a
  divisor is zero; \<^verbatim>\<open>OverflowError\<close> when a quotient of integers is too large for a
  float; \<^verbatim>\<open>AttributeError\<close> when an object has no attribute of the name. A class the
  program defines itself is \<open>UserDefined\<close> with its name; the source defines none.
\<close>

datatype exc_class =
  Exception | ValueError | TypeError | AttributeError | ZeroDivisionError | OverflowError
  | TaskFault | UserDefined string

datatype error = Raised (exc_type: exc_class) (exc_msg: string)

subsection \<open>Snapshot trees\<close>

text \<open>
  A node of \<^verbatim>\<open>vm.snapshot.rootSnapshotList\<close>. \<open>createTime\<close> and \<open>state\<close> hold the
  text that \<^verbatim>\<open>str()\<close> gives for them, which is all the source reads.
\<close>

datatype snapshot_tree =
  SnapshotTree (snap_name: string) (snap_description: string) (snap_createTime: string)
    (snap_state: string) (childSnapshotList: "snapshot_tree list")

text \<open>The dictionary \<^verbatim>\<open>snap_info\<close> that \<^verbatim>\<open>_collect_snapshots\<close> builds.\<close>

record snap_info =
  si_name :: string
  si_description :: string
  si_create_time :: string
  si_state :: string
  si_level :: int

text \<open>
  \<^verbatim>\<open>
  def _find_snapshot_by_name(self, snapshots, name):
      for snapshot in snapshots:
          if snapshot.name == name:
              return snapshot
          if snapshot.childSnapshotList:
              result = self._find_snapshot_by_name(snapshot.childSnapshotList, name)
              if result:
                  return result
      return None
  \<close>
\<close>

fun find_snapshot_by_name :: "snapshot_tree list \<Rightarrow> string \<Rightarrow> snapshot_tree option" where
  "find_snapshot_by_name [] name = None"
| "find_snapshot_by_name (SnapshotTree n d c s children # snapshots) name =
     (if n = name then Some (SnapshotTree n d c s children)
      else if children \<noteq> [] then
        (case find_snapshot_by_name children name of
           Some result \<Rightarrow> Some result
         | None \<Rightarrow> find_snapshot_by_name snapshots name)
      else find_snapshot_by_name snapshots name)"

text \<open>
  \<^verbatim>\<open>
  def _collect_snapshots(self, snapshots, result: list, level: int = 0):
      for snapshot in snapshots:
          snap_info = {"name": snapshot.name, "description": snapshot.description,
                       "create_time": str(snapshot.createTime),
                       "state": str(snapshot.state), "level": level}
          result.append(snap_info)
          if snapshot.childSnapshotList:
              self._collect_snapshots(snapshot.childSnapshotList, result, level + 1)
  \<close>
  The source appends to the caller's list; the model returns the list after the call.
\<close>

fun collect_snapshots :: "snapshot_tree list \<Rightarrow> snap_info list \<Rightarrow> int \<Rightarrow> snap_info list" where
  "collect_snapshots [] result level = result"
| "collect_snapshots (SnapshotTree n d c s children # snapshots) result level =
     (let result1 = result @
            [\<lparr>si_name = n, si_description = d, si_create_time = c, si_state = s,
              si_level = level\<rparr>];
          result2 = (if children \<noteq> [] then collect_snapshots children result1 (level + 1)
                     else result1)
      in collect_snapshots snapshots result2 level)"

text \<open>
  The specification's words, for comparison: the depth-first pre-order sequence of the
  nodes of a forest, each with its depth from the root.
\<close>

fun preorder_depth :: "int \<Rightarrow> snapshot_tree list \<Rightarrow> (snapshot_tree \<times> int) list" where
  "preorder_depth depth [] = []"
| "preorder_depth depth (SnapshotTree n d c s children # ts) =
     (SnapshotTree n d c s children, depth) #
       preorder_depth (depth + 1) children @ preorder_depth depth ts"

definition annotate :: "snapshot_tree \<times> int \<Rightarrow> snap_info" where
  "annotate p = \<lparr>si_name = snap_name (fst p), si_description = snap_description (fst p),
     si_create_time = snap_createTime (fst p), si_state = snap_state (fst p),
     si_level = snd p\<rparr>"

text \<open>The tree \<open>A -> [B, C -> [D]]\<close> of the specification's example.\<close>

definition snap_D :: snapshot_tree where
  "snap_D = SnapshotTree ''D'' '''' ''2024-01-04'' ''poweredOff'' []"

definition snap_C :: snapshot_tree where
  "snap_C = SnapshotTree ''C'' '''' ''2024-01-03'' ''poweredOff'' [snap_D]"

definition snap_B :: snapshot_tree where
  "snap_B = SnapshotTree ''B'' '''' ''2024-01-02'' ''poweredOff'' []"

definition snap_A :: snapshot_tree where
  "snap_A = SnapshotTree ''A'' '''' ''2024-01-01'' ''poweredOff'' [snap_B, snap_C]"

subsection \<open>Inventory of the control plane\<close>

text \<open>
  The managed objects the source reads, with the attributes it reads. An
  \<^verbatim>\<open>isinstance\<close> test of the source is a constructor test here: the children of a
  folder are a datatype with one constructor per class the source tells apart and one
  for everything else.
\<close>

record vim_resource_pool =
  rp_moid :: string
  rp_name :: string

text \<open>
  Children of \<^verbatim>\<open>datacenter.hostFolder\<close>. \<^verbatim>\<open>vim.ClusterComputeResource\<close> is a subclass
  of \<^verbatim>\<open>vim.ComputeResource\<close>; \<open>ComputeResource\<close> is a stand-alone host.
\<close>

datatype host_folder_child =
    ClusterComputeResource string vim_resource_pool
  | ComputeResource string vim_resource_pool
  | HostFolderOther string

record vim_datastore =
  ds_name :: string
  ds_freeSpace :: int

datatype datastore_folder_child =
    Datastore vim_datastore
  | DatastoreFolderOther string

datatype network_folder_child =
    Network string
  | DistributedVirtualPortgroup string string string
  | NetworkFolderOther string

fun net_name :: "network_folder_child \<Rightarrow> string" where
  "net_name (Network n) = n"
| "net_name (DistributedVirtualPortgroup n key uuid) = n"
| "net_name (NetworkFolderOther n) = n"

record vim_datacenter =
  dc_name :: string
  hostFolder :: "host_folder_child list"
  datastoreFolder :: "datastore_folder_child list"
  networkFolder :: "network_folder_child list"
  vmFolder :: string

datatype root_folder_child =
    Datacenter vim_datacenter
  | RootFolderOther string

datatype power_state = poweredOff | poweredOn | suspended

text \<open>
  A virtual machine. \<open>vm_snapshot\<close> is \<open>None\<close> when \<^verbatim>\<open>vm.snapshot\<close> is \<^verbatim>\<open>None\<close>
  and otherwise holds \<^verbatim>\<open>vm.snapshot.rootSnapshotList\<close>; \<open>vm_parent\<close> is the folder
  holding the machine when its parent is a \<^verbatim>\<open>vim.Folder\<close>.
\<close>

record vim_vm =
  vm_name :: string
  powerState :: power_state
  vm_snapshot :: "snapshot_tree list option"
  vm_parent :: "string option"
  vm_resourcePool :: "vim_resource_pool option"

text \<open>
  A host. Every counter of \<^verbatim>\<open>host.summary.quickStats\<close> is optional in the vSphere
  API and reads as \<^verbatim>\<open>None\<close> when the control plane has not set it.
\<close>

record host_quick_stats =
  overallCpuUsage :: "int option"
  overallMemoryUsage :: "int option"
  uptime :: "int option"

record host_cpu_info =
  numCpuCores :: int
  hz :: int

record host_hardware =
  cpuInfo :: "host_cpu_info option"
  memorySize :: int

record vim_host =
  host_name :: string
  quickStats :: "host_quick_stats option"
  hardware :: "host_hardware option"

subsection \<open>Tasks\<close>

datatype task_state = queued | running | success | error

text \<open>
  A task handle. The control plane decides what a read of \<^verbatim>\<open>task.info.state\<close>
  returns: \<open>task_states t k\<close> is the state that the \<open>k\<close>-th evaluation of a
  waiting loop's condition reads (numbered from 0), and \<open>task_state_after t k\<close> the
  state that \<^verbatim>\<open>wait_for_task\<close> reads again in the same pass. Of
  \<^verbatim>\<open>task.info.result\<close> the source uses the truth value and the text \<^verbatim>\<open>str()\<close>
  gives; \<open>task_error\<close> is \<^verbatim>\<open>task.info.error\<close>, \<^verbatim>\<open>None\<close> or a fault object (which
  is true in Python) with its text.
\<close>

record vim_task =
  task_states :: "nat \<Rightarrow> task_state"
  task_state_after :: "nat \<Rightarrow> task_state"
  task_result_truthy :: bool
  task_result_str :: string
  task_error :: "string option"

text \<open>What \<^verbatim>\<open>create_vm\<close> and \<^verbatim>\<open>create_vm_custom\<close> put into \<^verbatim>\<open>vim.vm.ConfigSpec\<close>.\<close>

record vm_config_spec =
  spec_name :: string
  spec_memoryMB :: int
  spec_numCPUs :: int
  spec_guestId :: string
  spec_annotation :: "string option"
  spec_capacityInKB :: int
  spec_thinProvisioned :: bool
  spec_datastore :: vim_datastore
  spec_nic :: "network_folder_child option"

text \<open>The calls of the source that hand a task to the control plane.\<close>

datatype task_request =
    CreateVM_Task string vm_config_spec vim_resource_pool
  | Clone vim_vm string string vim_resource_pool vim_datastore
  | Destroy_Task vim_vm
  | PowerOnVM_Task vim_vm
  | PowerOffVM_Task vim_vm
  | CreateSnapshot vim_vm string string bool bool
  | RemoveSnapshot_Task snapshot_tree bool
  | RevertToSnapshot_Task snapshot_tree
  | RemoveAllSnapshots vim_vm

text \<open>
  The content root that \<^verbatim>\<open>si.RetrieveContent()\<close> returns: the inventory, the task
  the control plane answers each request with, and the requests it has received so
  far. The effect a task has on the inventory is the control plane's and is not
  modelled.
\<close>

record vim_content =
  rootFolder :: "root_folder_child list"
  vm_view :: "vim_vm list"
  host_view :: "vim_host list"
  task_for :: "task_request \<Rightarrow> vim_task"
  submitted :: "task_request list"

subsection \<open>Configuration and the manager\<close>

text \<open>
  Modelled from the spec: the class \<^verbatim>\<open>Config\<close> is declared in \<^verbatim>\<open>config.py\<close>, which
  is not among the sources; the record has the fields the sources read. A name that is
  not configured is \<^verbatim>\<open>None\<close>.
\<close>

record config =
  vcenter_host :: string
  vcenter_user :: string
  vcenter_password :: string
  insecure :: bool
  datacenter :: "string option"
  cluster :: "string option"
  datastore :: "string option"
  network :: "string option"
  api_key :: "string option"

text \<open>Python's truth value of an optional string: \<^verbatim>\<open>None\<close> and \<^verbatim>\<open>""\<close> are false.\<close>

definition truthy :: "string option \<Rightarrow> bool" where
  "truthy s = (case s of None \<Rightarrow> False | Some v \<Rightarrow> v \<noteq> [])"

text \<open>The attributes of \<^verbatim>\<open>VMwareManager\<close> after \<^verbatim>\<open>__init__\<close>.\<close>

record manager =
  content :: vim_content
  datacenter_obj :: vim_datacenter
  resource_pool :: vim_resource_pool
  datastore_obj :: vim_datastore
  network_obj :: "network_folder_child option"
  authenticated :: bool

subsection \<open>Startup resolution\<close>

text \<open>
  The \<^verbatim>\<open>isinstance\<close> filters of \<^verbatim>\<open>_connect_vcenter\<close>: the datacenters among the
  children of the root folder, the clusters and the compute resources (clusters and
  stand-alone hosts) of a host folder with their resource pools, the datastores of a
  datastore folder.
\<close>

fun datacenters :: "root_folder_child list \<Rightarrow> vim_datacenter list" where
  "datacenters [] = []"
| "datacenters (Datacenter dc # xs) = dc # datacenters xs"
| "datacenters (RootFolderOther n # xs) = datacenters xs"

fun clusters :: "host_folder_child list \<Rightarrow> (string \<times> vim_resource_pool) list" where
  "clusters [] = []"
| "clusters (ClusterComputeResource n pool # xs) = (n, pool) # clusters xs"
| "clusters (ComputeResource n pool # xs) = clusters xs"
| "clusters (HostFolderOther n # xs) = clusters xs"

fun compute_resources :: "host_folder_child list \<Rightarrow> (string \<times> vim_resource_pool) list" where
  "compute_resources [] = []"
| "compute_resources (ClusterComputeResource n pool # xs) = (n, pool) # compute_resources xs"
| "compute_resources (ComputeResource n pool # xs) = (n, pool) # compute_resources xs"
| "compute_resources (HostFolderOther n # xs) = compute_resources xs"

fun datastores :: "datastore_folder_child list \<Rightarrow> vim_datastore list" where
  "datastores [] = []"
| "datastores (Datastore ds # xs) = ds # datastores xs"
| "datastores (DatastoreFolderOther n # xs) = datastores xs"

text \<open>
  Python's \<^verbatim>\<open>max(xs, key=k)\<close> on a non-empty list: the first element whose key is
  the largest. \<open>best\<close> is the largest seen so far.
\<close>

fun py_max_from :: "('a \<Rightarrow> int) \<Rightarrow> 'a \<Rightarrow> 'a list \<Rightarrow> 'a" where
  "py_max_from key best [] = best"
| "py_max_from key best (x # xs) =
     py_max_from key (if key x > key best then x else best) xs"

text \<open>
  Lines 54-66 of \<^verbatim>\<open>vmware_manager.py\<close>: the datacenter of the configured name, or
  the first datacenter.
\<close>

definition resolve_datacenter :: "config \<Rightarrow> vim_content \<Rightarrow> error + vim_datacenter" where
  "resolve_datacenter cfg c =
     (if truthy (datacenter cfg) then
        (case List.find (\<lambda>dc. dc_name dc = the (datacenter cfg)) (datacenters (rootFolder c)) of
           None \<Rightarrow> Inl (Raised Exception (''Datacenter '' @ the (datacenter cfg) @ '' not found''))
         | Some dc \<Rightarrow> Inr dc)
      else
        (case datacenters (rootFolder c) of
           [] \<Rightarrow> Inl (Raised Exception ''No datacenter object found'')
         | dc # rest \<Rightarrow> Inr dc))"

text \<open>
  Lines 69-85: the resource pool of the cluster of the configured name, or of the
  first compute resource.
\<close>

definition resolve_resource_pool :: "config \<Rightarrow> vim_datacenter \<Rightarrow> error + vim_resource_pool" where
  "resolve_resource_pool cfg dc =
     (if truthy (cluster cfg) then
        (case List.find (\<lambda>cr. fst cr = the (cluster cfg)) (clusters (hostFolder dc)) of
           None \<Rightarrow> Inl (Raised Exception (''Cluster '' @ the (cluster cfg) @ '' not found''))
         | Some cr \<Rightarrow> Inr (snd cr))
      else
        (case compute_resources (hostFolder dc) of
           [] \<Rightarrow> Inl (Raised Exception ''No compute resource (cluster or host) found'')
         | cr # rest \<Rightarrow> Inr (snd cr)))"

text \<open>
  Lines 89-102: the datastore of the configured name, or the datastore with the most
  free space.
\<close>

definition resolve_datastore :: "config \<Rightarrow> vim_datacenter \<Rightarrow> error + vim_datastore" where
  "resolve_datastore cfg dc =
     (if truthy (datastore cfg) then
        (case List.find (\<lambda>ds. ds_name ds = the (datastore cfg)) (datastores (datastoreFolder dc)) of
           None \<Rightarrow> Inl (Raised Exception (''Datastore '' @ the (datastore cfg) @ '' not found''))
         | Some ds \<Rightarrow> Inr ds)
      else
        (case datastores (datastoreFolder dc) of
           [] \<Rightarrow> Inl (Raised Exception ''No available datastore found in the datacenter'')
         | ds # rest \<Rightarrow> Inr (py_max_from ds_freeSpace ds rest)))"

text \<open>Lines 106-115: the network of the configured name, or none.\<close>

definition resolve_network ::
  "config \<Rightarrow> vim_datacenter \<Rightarrow> error + network_folder_child option" where
  "resolve_network cfg dc =
     (if truthy (network cfg) then
        (case List.find (\<lambda>net. net_name net = the (network cfg)) (networkFolder dc) of
           None \<Rightarrow> Inl (Raised Exception (''Network '' @ the (network cfg) @ '' not found''))
         | Some net \<Rightarrow> Inr (Some net))
      else Inr None)"

text \<open>
  \<^verbatim>\<open>VMwareManager.__init__\<close> with \<^verbatim>\<open>_connect_vcenter\<close>. \<open>smart_connect\<close> is what
  \<^verbatim>\<open>connect.SmartConnect(...)\<close> followed by \<^verbatim>\<open>RetrieveContent()\<close> gives: the
  exception it raises, which the source logs and raises again, or the content root.
\<close>

definition connect_vcenter :: "config \<Rightarrow> error + vim_content \<Rightarrow> error + manager" where
  "connect_vcenter cfg smart_connect =
     (case smart_connect of
        Inl e \<Rightarrow> Inl e
      | Inr c \<Rightarrow>
     (case resolve_datacenter cfg c of
        Inl e \<Rightarrow> Inl e
      | Inr dc \<Rightarrow>
     (case resolve_resource_pool cfg dc of
        Inl e \<Rightarrow> Inl e
      | Inr pool \<Rightarrow>
     (case resolve_datastore cfg dc of
        Inl e \<Rightarrow> Inl e
      | Inr ds \<Rightarrow>
     (case resolve_network cfg dc of
        Inl e \<Rightarrow> Inl e
      | Inr net \<Rightarrow>
          Inr \<lparr>content = c, datacenter_obj = dc, resource_pool = pool, datastore_obj = ds,
               network_obj = net, authenticated = False\<rparr>)))))"

text \<open>
  The exceptions \<^verbatim>\<open>_connect_vcenter\<close> raises when it cannot resolve an object (lines
  60, 66, 78, 84, 95, 100 and 112): the startup failure that the specification calls
  ConfigurationError. The source raises each as the built-in \<^verbatim>\<open>Exception\<close>.
\<close>

definition configuration_errors :: "config \<Rightarrow> error list" where
  "configuration_errors cfg =
     [Raised Exception (''Datacenter '' @ the (datacenter cfg) @ '' not found''),
      Raised Exception ''No datacenter object found'',
      Raised Exception (''Cluster '' @ the (cluster cfg) @ '' not found''),
      Raised Exception ''No compute resource (cluster or host) found'',
      Raised Exception (''Datastore '' @ the (datastore cfg) @ '' not found''),
      Raised Exception ''No available datastore found in the datacenter'',
      Raised Exception (''Network '' @ the (network cfg) @ '' not found'')]"

text \<open>An inventory for the examples: two datacenters, the second with three datastores.\<close>

definition pool_a :: vim_resource_pool where
  "pool_a = \<lparr>rp_moid = ''resgroup-8'', rp_name = ''Resources''\<rparr>"

definition pool_b :: vim_resource_pool where
  "pool_b = \<lparr>rp_moid = ''resgroup-21'', rp_name = ''Resources''\<rparr>"

definition ds_small :: vim_datastore where
  "ds_small = \<lparr>ds_name = ''ds-small'', ds_freeSpace = 10 * 1024 ^ 3\<rparr>"

definition ds_large :: vim_datastore where
  "ds_large = \<lparr>ds_name = ''ds-large'', ds_freeSpace = 50 * 1024 ^ 3\<rparr>"

definition ds_medium :: vim_datastore where
  "ds_medium = \<lparr>ds_name = ''ds-medium'', ds_freeSpace = 30 * 1024 ^ 3\<rparr>"

definition dc_one :: vim_datacenter where
  "dc_one = \<lparr>dc_name = ''DC1'', hostFolder = [ComputeResource ''esx1'' pool_a],
     datastoreFolder = [Datastore ds_small], networkFolder = [Network ''VM Network''],
     vmFolder = ''group-v3''\<rparr>"

definition dc_two :: vim_datacenter where
  "dc_two = \<lparr>dc_name = ''DC2'',
     hostFolder = [HostFolderOther ''lab'', ComputeResource ''esx2'' pool_a,
                   ClusterComputeResource ''prod'' pool_b],
     datastoreFolder = [Datastore ds_small, DatastoreFolderOther ''pod1'', Datastore ds_large,
                        Datastore ds_medium],
     networkFolder = [Network ''VM Network'', DistributedVirtualPortgroup ''dmz'' ''dvportgroup-9'' ''50 2a''],
     vmFolder = ''group-v22''\<rparr>"

definition idle_task :: vim_task where
  "idle_task = \<lparr>task_states = (\<lambda>k. running), task_state_after = (\<lambda>k. running),
     task_result_truthy = False, task_result_str = ''None'', task_error = None\<rparr>"

definition inventory :: vim_content where
  "inventory = \<lparr>rootFolder = [RootFolderOther ''templates'', Datacenter dc_one, Datacenter dc_two],
     vm_view = [], host_view = [], task_for = (\<lambda>r. idle_task), submitted = []\<rparr>"

definition cfg_default :: config where
  "cfg_default = \<lparr>vcenter_host = ''vc.example'', vcenter_user = ''admin'',
     vcenter_password = ''pw'', insecure = False, datacenter = None, cluster = None,
     datastore = None, network = None, api_key = None\<rparr>"

definition cfg_named :: config where
  "cfg_named = cfg_default\<lparr>datacenter := Some ''DC2'', cluster := Some ''prod'',
     datastore := Some ''ds-medium'', network := Some ''dmz''\<rparr>"

subsection \<open>Python values and text\<close>

text \<open>
  A \<^verbatim>\<open>float\<close>: a finite double is the rational number it stands for (negative zero
  is zero); the others are the two infinities and the NaN.
\<close>

datatype py_float = Finite rat | PosInf | NegInf | NaN

text \<open>
  The values the handlers return and receive. A \<^verbatim>\<open>dict\<close> is the list of its items in
  insertion order.
\<close>

datatype py_value =
    PyNone
  | PyBool bool
  | PyInt int
  | PyFloat py_float
  | PyStr string
  | PyList "py_value list"
  | PyDict "(string \<times> py_value) list"

text \<open>
  \<^verbatim>\<open>str()\<close> of an integer, as an f-string formats it. \<open>digit_char\<close> is only
  applied to a number below ten.
\<close>

definition digit_char :: "nat \<Rightarrow> char" where
  "digit_char n = ''0123456789'' ! n"

function str_nat :: "nat \<Rightarrow> string" where
  "str_nat n = (if n < 10 then [digit_char n] else str_nat (n div 10) @ [digit_char (n mod 10)])"
  by pat_completeness auto
termination
  by (relation "measure id") auto

declare str_nat.simps [simp del]

definition str_int :: "int \<Rightarrow> string" where
  "str_int i = (if i < 0 then CHR ''-'' # str_nat (nat (- i)) else str_nat (nat i))"

text \<open>A name between single quotes, as in \<^verbatim>\<open>f"VM '{name}' deleted."\<close>.\<close>

definition quoted :: "string \<Rightarrow> string" where
  "quoted s = CHR 0x27 # s @ [CHR 0x27]"

fun str_task_state :: "task_state \<Rightarrow> string" where
  "str_task_state queued = ''queued''"
| "str_task_state running = ''running''"
| "str_task_state success = ''success''"
| "str_task_state error = ''error''"

subsection \<open>The task executor\<close>

text \<open>
  \<^verbatim>\<open>
  def wait_for_task(self, task, timeout=300):
      start_time = time.time()
      while task.info.state not in [vim.TaskInfo.State.success, vim.TaskInfo.State.error]:
          if time.time() - start_time > timeout:
              return {"status": "timeout",
                      "message": f"Task timed out after {timeout} seconds",
                      "task_state": str(task.info.state)}
          time.sleep(1)
      if task.info.state == vim.TaskInfo.State.success:
          return {"status": "success", "message": "Task completed successfully",
                  "result": str(task.info.result) if task.info.result else None}
      else:
          return {"status": "error",
                  "message": str(task.info.error) if task.info.error else "Unknown error",
                  "error": str(task.info.error) if task.info.error else None}
  \<close>
  The clock is the environment's: \<open>elapsed k\<close> is the value of
  \<^verbatim>\<open>time.time() - start_time\<close> in the \<open>k\<close>-th pass of the loop (passes are numbered
  from 0), a float and so a rational number, which Python compares with the integer
  \<open>timeout\<close> exactly. In pass \<open>k\<close> the loop condition reads \<open>task_states task k\<close>;
  the state read again in the same pass, for the timeout dictionary or after the loop,
  is \<open>task_state_after task k\<close>. With a clock that never passes the timeout and a
  task that never ends the loop does not end: the value is \<open>None\<close> then. The function
  has no \<^verbatim>\<open>raise\<close>, so when it returns its value is the dictionary.
\<close>

partial_function (option) wait_for_task_from ::
  "(nat \<Rightarrow> rat) \<Rightarrow> vim_task \<Rightarrow> int \<Rightarrow> nat \<Rightarrow> (string \<times> py_value) list option" where
  "wait_for_task_from elapsed task timeout k =
     (if task_states task k \<noteq> success \<and> task_states task k \<noteq> error then
        (if elapsed k > of_int timeout then
           Some [(''status'', PyStr ''timeout''),
                 (''message'', PyStr (''Task timed out after '' @ str_int timeout @ '' seconds'')),
                 (''task_state'', PyStr (str_task_state (task_state_after task k)))]
         else wait_for_task_from elapsed task timeout (Suc k))
      else if task_state_after task k = success then
        Some [(''status'', PyStr ''success''),
              (''message'', PyStr ''Task completed successfully''),
              (''result'', (if task_result_truthy task then PyStr (task_result_str task)
                            else PyNone))]
      else
        Some [(''status'', PyStr ''error''),
              (''message'', PyStr (case task_error task of Some e \<Rightarrow> e | None \<Rightarrow> ''Unknown error'')),
              (''error'', (case task_error task of Some e \<Rightarrow> PyStr e | None \<Rightarrow> PyNone))])"

declare wait_for_task_from.simps [code]

definition wait_for_task ::
  "(nat \<Rightarrow> rat) \<Rightarrow> vim_task \<Rightarrow> int \<Rightarrow> (string \<times> py_value) list option" where
  "wait_for_task elapsed task timeout = wait_for_task_from elapsed task timeout 0"

text \<open>
  For the examples: a clock on which every pass takes the second of the sleep and a
  millisecond more, and a task that is \<open>queued\<close> for two passes and has succeeded at
  the third.
\<close>

definition ticking :: "nat \<Rightarrow> rat" where
  "ticking k = of_nat k * (1001 / 1000) + 1 / 1000"

definition late_task :: vim_task where
  "late_task = \<lparr>task_states = (\<lambda>k. if k < 2 then queued else success),
     task_state_after = (\<lambda>k. if k < 2 then queued else success),
     task_result_truthy = True, task_result_str = ''vm-42'', task_error = None\<rparr>"

text \<open>
  The wait that every mutating method of \<^verbatim>\<open>VMwareManager\<close> writes out itself:
  \<^verbatim>\<open>
  while task.info.state not in [vim.TaskInfo.State.success, vim.TaskInfo.State.error]:
      continue
  \<close>
  It has no clock and no bound, so it may never end: its value is \<open>None\<close> then, and
  otherwise the state that ended it.
\<close>

partial_function (option) busy_wait :: "vim_task \<Rightarrow> nat \<Rightarrow> task_state option" where
  "busy_wait task k =
     (if task_states task k \<noteq> success \<and> task_states task k \<noteq> error
      then busy_wait task (Suc k)
      else Some (task_states task k))"

declare busy_wait.simps [code]

text \<open>
  \<^verbatim>\<open>raise task.info.error\<close>: the fault of the task, or Python's \<^verbatim>\<open>TypeError\<close> when
  the task carries none.
\<close>

definition raise_task_error :: "vim_task \<Rightarrow> error" where
  "raise_task_error task =
     (case task_error task of
        Some fault \<Rightarrow> Raised TaskFault fault
      | None \<Rightarrow> Raised TypeError ''exceptions must derive from BaseException'')"

text \<open>
  The lines that follow the submission in each mutating method: the wait,
  \<^verbatim>\<open>if task.info.state == vim.TaskInfo.State.error: raise task.info.error\<close>, and the
  message returned. \<open>None\<close> stands for a call that never returns.
\<close>

definition wait_and_report :: "vim_task \<Rightarrow> string \<Rightarrow> (error + string) option" where
  "wait_and_report task message =
     (case busy_wait task 0 of
        None \<Rightarrow> None
      | Some st \<Rightarrow> Some (if st = error then Inl (raise_task_error task) else Inr message))"

text \<open>Handing a request to the control plane: it answers with a task and records the request.\<close>

definition submit :: "manager \<Rightarrow> task_request \<Rightarrow> vim_task \<times> manager" where
  "submit m req =
     (task_for (content m) req,
      m\<lparr>content := (content m)\<lparr>submitted := submitted (content m) @ [req]\<rparr>\<rparr>)"

subsection \<open>Methods of the manager\<close>

text \<open>
  A method takes the manager and returns its outcome with the manager after the call:
  \<open>Some (Inr v)\<close> when it returns \<open>v\<close>, \<open>Some (Inl e)\<close> when it raises \<open>e\<close>,
  \<open>None\<close> when it never returns.
\<close>

type_synonym 'a outcome = "(error + 'a) option \<times> manager"

text \<open>\<^verbatim>\<open>find_vm\<close>: the first virtual machine of the inventory view with the name.\<close>

definition find_vm :: "manager \<Rightarrow> string \<Rightarrow> vim_vm option" where
  "find_vm m name = List.find (\<lambda>vm. vm_name vm = name) (vm_view (content m))"

text \<open>
  The datastore and the network of \<^verbatim>\<open>create_vm\<close> and \<^verbatim>\<open>create_vm_custom\<close>
  (lines 436-447 and 546-557): the one named in the call, or the manager's.
\<close>

definition select_datastore :: "manager \<Rightarrow> string option \<Rightarrow> error + vim_datastore" where
  "select_datastore m ds_arg =
     (if truthy ds_arg then
        (case List.find (\<lambda>ds. ds_name ds = the ds_arg)
                (datastores (datastoreFolder (datacenter_obj m))) of
           None \<Rightarrow> Inl (Raised Exception (''Specified datastore '' @ the ds_arg @ '' not found''))
         | Some ds \<Rightarrow> Inr ds)
      else Inr (datastore_obj m))"

definition select_network :: "manager \<Rightarrow> string option \<Rightarrow> error + network_folder_child option" where
  "select_network m net_arg =
     (if truthy net_arg then
        (case List.find (\<lambda>net. net_name net = the net_arg)
                (networkFolder (datacenter_obj m)) of
           None \<Rightarrow> Inl (Raised Exception (''Specified network '' @ the net_arg @ '' not found''))
         | Some net \<Rightarrow> Inr (Some net))
      else Inr (network_obj m))"

definition create_vm ::
  "manager \<Rightarrow> string \<Rightarrow> int \<Rightarrow> int \<Rightarrow> string option \<Rightarrow> string option \<Rightarrow> string outcome" where
  "create_vm m name cpus memory_mb ds_arg net_arg =
     (case select_datastore m ds_arg of
        Inl e \<Rightarrow> (Some (Inl e), m)
      | Inr ds \<Rightarrow>
     (case select_network m net_arg of
        Inl e \<Rightarrow> (Some (Inl e), m)
      | Inr net \<Rightarrow>
          (let vm_spec = \<lparr>spec_name = name, spec_memoryMB = memory_mb, spec_numCPUs = cpus,
                 spec_guestId = ''otherGuest'', spec_annotation = None,
                 spec_capacityInKB = 1024 * 1024 * 10, spec_thinProvisioned = True,
                 spec_datastore = ds, spec_nic = net\<rparr>;
               (task, m') = submit m
                 (CreateVM_Task (vmFolder (datacenter_obj m)) vm_spec (resource_pool m))
           in (wait_and_report task (''VM '' @ quoted name @ '' created.''), m'))))"

definition clone_vm :: "manager \<Rightarrow> string \<Rightarrow> string \<Rightarrow> string outcome" where
  "clone_vm m template_name new_name =
     (case find_vm m template_name of
        None \<Rightarrow>
          (Some (Inl (Raised Exception
             (''Template virtual machine '' @ template_name @ '' not found''))), m)
      | Some template_vm \<Rightarrow>
          (let vm_folder = (case vm_parent template_vm of
                              Some folder \<Rightarrow> folder
                            | None \<Rightarrow> vmFolder (datacenter_obj m));
               pool = (case vm_resourcePool template_vm of
                         Some rp \<Rightarrow> rp
                       | None \<Rightarrow> resource_pool m);
               (task, m') = submit m
                 (Clone template_vm vm_folder new_name pool (datastore_obj m))
           in (wait_and_report task
                 (''VM '' @ quoted new_name @ '' cloned from '' @ quoted template_name @ ''.''),
               m')))"

definition create_vm_custom ::
  "manager \<Rightarrow> string \<Rightarrow> int \<Rightarrow> int \<Rightarrow> int \<Rightarrow> string \<Rightarrow> string option \<Rightarrow> string option \<Rightarrow>
   bool \<Rightarrow> string option \<Rightarrow> string outcome" where
  "create_vm_custom m name cpus memory_mb disk_size_gb guest_id ds_arg net_arg
       thin_provisioned annotation =
     (case select_datastore m ds_arg of
        Inl e \<Rightarrow> (Some (Inl e), m)
      | Inr ds \<Rightarrow>
     (case select_network m net_arg of
        Inl e \<Rightarrow> (Some (Inl e), m)
      | Inr net \<Rightarrow>
          (let vm_spec = \<lparr>spec_name = name, spec_memoryMB = memory_mb, spec_numCPUs = cpus,
                 spec_guestId = guest_id,
                 spec_annotation = (if truthy annotation then annotation else None),
                 spec_capacityInKB = 1024 * 1024 * disk_size_gb,
                 spec_thinProvisioned = thin_provisioned,
                 spec_datastore = ds, spec_nic = net\<rparr>;
               (task, m') = submit m
                 (CreateVM_Task (vmFolder (datacenter_obj m)) vm_spec (resource_pool m))
           in (wait_and_report task
                 (''Custom VM '' @ quoted name @ '' created with '' @ str_int cpus @
                  '' CPUs, '' @ str_int memory_mb @ ''MB RAM, and '' @ str_int disk_size_gb @
                  ''GB disk.''),
               m'))))"

definition delete_vm :: "manager \<Rightarrow> string \<Rightarrow> string outcome" where
  "delete_vm m name =
     (case find_vm m name of
        None \<Rightarrow> (Some (Inl (Raised Exception (''Virtual machine '' @ name @ '' not found''))), m)
      | Some vm \<Rightarrow>
          (let (task, m') = submit m (Destroy_Task vm)
           in (wait_and_report task (''VM '' @ quoted name @ '' deleted.''), m')))"

text \<open>
  \<^verbatim>\<open>
  def power_on_vm(self, name):
      vm = self.find_vm(name)
      if not vm:
          raise Exception(f"Virtual machine {name} not found")
      if vm.runtime.powerState == vim.VirtualMachine.PowerState.poweredOn:
          return f"VM '{name}' is already powered on."
      task = vm.PowerOnVM_Task()
      while task.info.state not in [vim.TaskInfo.State.success, vim.TaskInfo.State.error]:
          continue
      if task.info.state == vim.TaskInfo.State.error:
          raise task.info.error
      return f"VM '{name}' powered on."
  \<close>
\<close>

definition power_on_vm :: "manager \<Rightarrow> string \<Rightarrow> string outcome" where
  "power_on_vm m name =
     (case find_vm m name of
        None \<Rightarrow> (Some (Inl (Raised Exception (''Virtual machine '' @ name @ '' not found''))), m)
      | Some vm \<Rightarrow>
          if powerState vm = poweredOn
          then (Some (Inr (''VM '' @ quoted name @ '' is already powered on.'')), m)
          else (let (task, m') = submit m (PowerOnVM_Task vm)
                in (wait_and_report task (''VM '' @ quoted name @ '' powered on.''), m')))"

definition power_off_vm :: "manager \<Rightarrow> string \<Rightarrow> string outcome" where
  "power_off_vm m name =
     (case find_vm m name of
        None \<Rightarrow> (Some (Inl (Raised Exception (''Virtual machine '' @ name @ '' not found''))), m)
      | Some vm \<Rightarrow>
          if powerState vm = poweredOff
          then (Some (Inr (''VM '' @ quoted name @ '' is already powered off.'')), m)
          else (let (task, m') = submit m (PowerOffVM_Task vm)
                in (wait_and_report task (''VM '' @ quoted name @ '' powered off.''), m')))"

definition create_snapshot ::
  "manager \<Rightarrow> string \<Rightarrow> string \<Rightarrow> string \<Rightarrow> bool \<Rightarrow> bool \<Rightarrow> string outcome" where
  "create_snapshot m vm_name_arg snapshot_name description memory quiesce =
     (case find_vm m vm_name_arg of
        None \<Rightarrow> (Some (Inl (Raised Exception (''VM '' @ vm_name_arg @ '' not found''))), m)
      | Some vm \<Rightarrow>
          (let (task, m') = submit m (CreateSnapshot vm snapshot_name description memory quiesce)
           in (wait_and_report task
                 (''Snapshot '' @ quoted snapshot_name @ '' created successfully for VM '' @
                  quoted vm_name_arg),
               m')))"

definition remove_snapshot :: "manager \<Rightarrow> string \<Rightarrow> string \<Rightarrow> bool \<Rightarrow> string outcome" where
  "remove_snapshot m vm_name_arg snapshot_name remove_children =
     (case find_vm m vm_name_arg of
        None \<Rightarrow> (Some (Inl (Raised Exception (''VM '' @ vm_name_arg @ '' not found''))), m)
      | Some vm \<Rightarrow>
     (case vm_snapshot vm of
        None \<Rightarrow> (Some (Inl (Raised Exception (''VM '' @ vm_name_arg @ '' has no snapshots''))), m)
      | Some rootSnapshotList \<Rightarrow>
     (case find_snapshot_by_name rootSnapshotList snapshot_name of
        None \<Rightarrow>
          (Some (Inl (Raised Exception
             (''Snapshot '' @ quoted snapshot_name @ '' not found on VM '' @ quoted vm_name_arg))),
           m)
      | Some snapshot \<Rightarrow>
          (let (task, m') = submit m (RemoveSnapshot_Task snapshot remove_children)
           in (wait_and_report task
                 (''Snapshot '' @ quoted snapshot_name @ '' removed successfully from VM '' @
                  quoted vm_name_arg),
               m')))))"

definition revert_snapshot :: "manager \<Rightarrow> string \<Rightarrow> string \<Rightarrow> string outcome" where
  "revert_snapshot m vm_name_arg snapshot_name =
     (case find_vm m vm_name_arg of
        None \<Rightarrow> (Some (Inl (Raised Exception (''VM '' @ vm_name_arg @ '' not found''))), m)
      | Some vm \<Rightarrow>
     (case vm_snapshot vm of
        None \<Rightarrow> (Some (Inl (Raised Exception (''VM '' @ vm_name_arg @ '' has no snapshots''))), m)
      | Some rootSnapshotList \<Rightarrow>
     (case find_snapshot_by_name rootSnapshotList snapshot_name of
        None \<Rightarrow>
          (Some (Inl (Raised Exception
             (''Snapshot '' @ quoted snapshot_name @ '' not found on VM '' @ quoted vm_name_arg))),
           m)
      | Some snapshot \<Rightarrow>
          (let (task, m') = submit m (RevertToSnapshot_Task snapshot)
           in (wait_and_report task
                 (''VM '' @ quoted vm_name_arg @ '' reverted successfully to snapshot '' @
                  quoted snapshot_name),
               m')))))"

text \<open>
  \<^verbatim>\<open>
  def list_snapshots(self, vm_name):
      vm = self.find_vm(vm_name)
      if not vm:
          raise Exception(f"VM {vm_name} not found")
      if not vm.snapshot:
          return []
      snapshots = []
      self._collect_snapshots(vm.snapshot.rootSnapshotList, snapshots)
      return snapshots
  \<close>
\<close>

definition list_snapshots :: "manager \<Rightarrow> string \<Rightarrow> snap_info list outcome" where
  "list_snapshots m vm_name_arg =
     (case find_vm m vm_name_arg of
        None \<Rightarrow> (Some (Inl (Raised Exception (''VM '' @ vm_name_arg @ '' not found''))), m)
      | Some vm \<Rightarrow>
     (case vm_snapshot vm of
        None \<Rightarrow> (Some (Inr []), m)
      | Some rootSnapshotList \<Rightarrow> (Some (Inr (collect_snapshots rootSnapshotList [] 0)), m)))"

text \<open>
  \<^verbatim>\<open>
  def remove_all_snapshots(self, vm_name):
      vm = self.find_vm(vm_name)
      if not vm:
          raise Exception(f"VM {vm_name} not found")
      if not vm.snapshot:
          return f"VM '{vm_name}' has no snapshots to remove"
      task = vm.RemoveAllSnapshots()
      while task.info.state not in [vim.TaskInfo.State.success, vim.TaskInfo.State.error]:
          continue
      if task.info.state == vim.TaskInfo.State.error:
          raise task.info.error
      return f"All snapshots removed successfully from VM '{vm_name}'"
  \<close>
\<close>

definition remove_all_snapshots :: "manager \<Rightarrow> string \<Rightarrow> string outcome" where
  "remove_all_snapshots m vm_name_arg =
     (case find_vm m vm_name_arg of
        None \<Rightarrow> (Some (Inl (Raised Exception (''VM '' @ vm_name_arg @ '' not found''))), m)
      | Some vm \<Rightarrow>
     (case vm_snapshot vm of
        None \<Rightarrow> (Some (Inr (''VM '' @ quoted vm_name_arg @ '' has no snapshots to remove'')), m)
      | Some rootSnapshotList \<Rightarrow>
          (let (task, m') = submit m (RemoveAllSnapshots vm)
           in (wait_and_report task
                 (''All snapshots removed successfully from VM '' @ quoted vm_name_arg),
               m'))))"

subsection \<open>Floating point\<close>

text \<open>
  The arithmetic of Python's \<^verbatim>\<open>float\<close>, an IEEE 754 double, on the rational number
  a finite double stands for. \<open>pow2 e\<close> is the power of two with an integer exponent,
  \<open>ilog2 x\<close> the exponent \<open>e\<close> with \<open>pow2 e \<le> x < pow2 (e + 1)\<close> of a positive \<open>x\<close>
  (\<open>bitlen n\<close> is the number of binary digits of \<open>n\<close>),
  \<open>round_half_even\<close> the nearest integer, the even one of two equally near.
\<close>

definition pow2 :: "int \<Rightarrow> rat" where
  "pow2 e = (if 0 \<le> e then 2 ^ nat e else 1 / 2 ^ nat (- e))"

definition ilog2 :: "rat \<Rightarrow> int" where
  "ilog2 x =
     (if 1 \<le> x then bitlen \<lfloor>x\<rfloor> - 1 else - bitlen (\<lceil>1 / x\<rceil> - 1))"

definition round_half_even :: "rat \<Rightarrow> int" where
  "round_half_even q =
     (let f = \<lfloor>q\<rfloor>; d = q - of_int f
      in if d < 1 / 2 then f else if d > 1 / 2 then f + 1 else if even f then f else f + 1)"

text \<open>
  Rounding to the nearest double, ties to even: the nearest multiple of the unit in
  the last place, which is \<open>pow2 (e - 52)\<close> for a number with exponent \<open>e\<close>, and
  \<open>pow2 (- 1074)\<close> below the normal range. The exponent is not bounded above here;
  a result of magnitude \<open>2 ^ 1024\<close> or more is one that overflows.
\<close>

definition fl :: "rat \<Rightarrow> rat" where
  "fl x =
     (if x = 0 then 0
      else let u = pow2 (max (ilog2 \<bar>x\<bar>) (- 1022) - 52)
           in of_int (round_half_even (x / u)) * u)"

definition overflows :: "rat \<Rightarrow> bool" where
  "overflows y = (2 ^ 1024 \<le> \<bar>y\<bar>)"

text \<open>
  The float of an exact result: the nearest double, or the infinity of its sign
  when that overflows.
\<close>

definition round_to_float :: "rat \<Rightarrow> py_float" where
  "round_to_float x =
     (let y = fl x in if overflows y then (if 0 < y then PosInf else NegInf) else Finite y)"

text \<open>
  \<^verbatim>\<open>a / b\<close> on integers: the correctly rounded quotient, \<^verbatim>\<open>ZeroDivisionError\<close> for a
  zero divisor, \<^verbatim>\<open>OverflowError\<close> when the quotient is too large for a float.
\<close>

definition int_truediv :: "int \<Rightarrow> int \<Rightarrow> error + py_float" where
  "int_truediv a b =
     (if b = 0 then Inl (Raised ZeroDivisionError ''division by zero'')
      else let y = fl (of_int a / of_int b)
           in if overflows y
              then Inl (Raised OverflowError ''integer division result too large for a float'')
              else Inr (Finite y))"

text \<open>
  \<^verbatim>\<open>a * b\<close> on floats: the rounded product of two finite ones; a NaN for a NaN
  operand and for zero times an infinity; otherwise the infinity of the product's
  sign.
\<close>

fun float_positive :: "py_float \<Rightarrow> bool" where
  "float_positive (Finite x) = (0 < x)"
| "float_positive PosInf = True"
| "float_positive NegInf = False"
| "float_positive NaN = False"

fun float_mul :: "py_float \<Rightarrow> py_float \<Rightarrow> py_float" where
  "float_mul (Finite x) (Finite y) = round_to_float (x * y)"
| "float_mul NaN b = NaN"
| "float_mul a NaN = NaN"
| "float_mul a b =
     (if a = Finite 0 \<or> b = Finite 0 then NaN
      else if float_positive a = float_positive b then PosInf else NegInf)"

text \<open>
  \<^verbatim>\<open>round(x, 2)\<close> on a float: the double nearest to the multiple of 1/100 nearest to
  \<open>x\<close> (the even multiple of two that are equally near); an infinity or a NaN is
  returned as it is.
\<close>

definition py_round2 :: "py_float \<Rightarrow> py_float" where
  "py_round2 x =
     (case x of
        Finite q \<Rightarrow> Finite (fl (of_int (round_half_even (q * 100)) / 100))
      | _ \<Rightarrow> x)"

subsection \<open>Host utilisation\<close>

definition opt_int :: "int option \<Rightarrow> py_value" where
  "opt_int v = (case v of None \<Rightarrow> PyNone | Some i \<Rightarrow> PyInt i)"

text \<open>
  The expression of lines 388 and 390,
  \<^verbatim>\<open>round((usage / total * 100), 2) if total > 0 else 0\<close>. The usage is an integer
  or \<^verbatim>\<open>None\<close>; dividing \<^verbatim>\<open>None\<close> raises \<^verbatim>\<open>TypeError\<close>. The integer 100 becomes the
  float 100.0 in the product.
\<close>

definition usage_percent :: "int option \<Rightarrow> int \<Rightarrow> error + py_value" where
  "usage_percent usage total_units =
     (if total_units > 0 then
        (case usage of
           Some u \<Rightarrow>
             (case int_truediv u total_units of
                Inl e \<Rightarrow> Inl e
              | Inr q \<Rightarrow> Inr (PyFloat (py_round2 (float_mul q (Finite 100)))))
         | None \<Rightarrow>
             Inl (Raised TypeError
               (''unsupported operand type(s) for /: '' @ quoted ''NoneType'' @ '' and '' @
                quoted ''int'')))
      else Inr (PyInt 0))"

definition find_host :: "manager \<Rightarrow> string \<Rightarrow> vim_host option" where
  "find_host m name = List.find (\<lambda>h. host_name h = name) (host_view (content m))"

text \<open>
  \<^verbatim>\<open>
  def get_host_performance(self, host_name):
      host = self.find_host(host_name)
      if not host:
          raise Exception(f"Host {host_name} not found")
      stats = {}
      qs = host.summary.quickStats
      stats["cpu_usage_mhz"] = qs.overallCpuUsage if qs else 0
      stats["memory_usage_mb"] = qs.overallMemoryUsage if qs else 0
      stats["uptime_seconds"] = qs.uptime if qs else 0
      if host.hardware:
          total_cpu_mhz = host.hardware.cpuInfo.numCpuCores * (host.hardware.cpuInfo.hz // 1000000) if host.hardware.cpuInfo else 0
          total_memory_mb = host.hardware.memorySize // (1024**2) if host.hardware.memorySize else 0
          stats["cpu_total_mhz"] = total_cpu_mhz
          stats["cpu_usage_percent"] = round((stats["cpu_usage_mhz"] / total_cpu_mhz * 100), 2) if total_cpu_mhz > 0 else 0
          stats["memory_total_mb"] = total_memory_mb
          stats["memory_usage_percent"] = round((stats["memory_usage_mb"] / total_memory_mb * 100), 2) if total_memory_mb > 0 else 0
      return stats
  \<close>
  \<open>quick_stat\<close> is \<^verbatim>\<open>qs.<counter> if qs else 0\<close>; \<open>total_cpu_mhz\<close> and
  \<open>total_memory_mb\<close> are the local variables of these names.
\<close>

definition quick_stat :: "(host_quick_stats \<Rightarrow> int option) \<Rightarrow> vim_host \<Rightarrow> int option" where
  "quick_stat counter host =
     (case quickStats host of Some qs \<Rightarrow> counter qs | None \<Rightarrow> Some 0)"

definition total_cpu_mhz :: "host_hardware \<Rightarrow> int" where
  "total_cpu_mhz hw =
     (case cpuInfo hw of Some ci \<Rightarrow> numCpuCores ci * (hz ci div 1000000) | None \<Rightarrow> 0)"

definition total_memory_mb :: "host_hardware \<Rightarrow> int" where
  "total_memory_mb hw = (if memorySize hw \<noteq> 0 then memorySize hw div (1024 ^ 2) else 0)"

definition get_host_performance :: "manager \<Rightarrow> string \<Rightarrow> error + (string \<times> py_value) list" where
  "get_host_performance m name =
     (case find_host m name of
        None \<Rightarrow> Inl (Raised Exception (''Host '' @ name @ '' not found''))
      | Some host \<Rightarrow>
          (let stats = [(''cpu_usage_mhz'', opt_int (quick_stat overallCpuUsage host)),
                        (''memory_usage_mb'', opt_int (quick_stat overallMemoryUsage host)),
                        (''uptime_seconds'', opt_int (quick_stat uptime host))]
           in case hardware host of
                None \<Rightarrow> Inr stats
              | Some hw \<Rightarrow>
                 (case usage_percent (quick_stat overallCpuUsage host) (total_cpu_mhz hw) of
                    Inl e \<Rightarrow> Inl e
                  | Inr cpu_usage_percent \<Rightarrow>
                 (case usage_percent (quick_stat overallMemoryUsage host) (total_memory_mb hw) of
                    Inl e \<Rightarrow> Inl e
                  | Inr memory_usage_percent \<Rightarrow>
                      Inr (stats @
                        [(''cpu_total_mhz'', PyInt (total_cpu_mhz hw)),
                         (''cpu_usage_percent'', cpu_usage_percent),
                         (''memory_total_mb'', PyInt (total_memory_mb hw)),
                         (''memory_usage_percent'', memory_usage_percent)])))))"

text \<open>
  Hosts for the examples: one that reports nothing about its processors and has no
  memory size, one with eight cores of 2.4 GHz and 64 GiB.
\<close>

definition host_blank :: vim_host where
  "host_blank = \<lparr>host_name = ''esx-blank'',
     quickStats = Some \<lparr>overallCpuUsage = Some 0, overallMemoryUsage = None, uptime = None\<rparr>,
     hardware = Some \<lparr>cpuInfo = None, memorySize = 0\<rparr>\<rparr>"

definition host_busy :: vim_host where
  "host_busy = \<lparr>host_name = ''esx2'',
     quickStats = Some \<lparr>overallCpuUsage = Some 2760, overallMemoryUsage = Some 21846,
                         uptime = Some 86400\<rparr>,
     hardware = Some \<lparr>cpuInfo = Some \<lparr>numCpuCores = 8, hz = 2400000000\<rparr>,
                       memorySize = 64 * 1024 ^ 3\<rparr>\<rparr>"

definition host_manager :: manager where
  "host_manager = \<lparr>content = inventory\<lparr>host_view := [host_blank, host_busy]\<rparr>,
     datacenter_obj = dc_two, resource_pool = pool_b, datastore_obj = ds_large,
     network_obj = None, authenticated = False\<rparr>"

text \<open>
  The ten mutating operations as one function of the call, to state what they share.
\<close>

datatype mutating_call =
    Create_vm string int int "string option" "string option"
  | Create_vm_custom string int int int string "string option" "string option" bool
      "string option"
  | Clone_vm string string
  | Delete_vm string
  | Power_on_vm string
  | Power_off_vm string
  | Create_snapshot string string string bool bool
  | Remove_snapshot string string bool
  | Revert_snapshot string string
  | Remove_all_snapshots string

fun mutating_handler :: "manager \<Rightarrow> mutating_call \<Rightarrow> string outcome" where
  "mutating_handler m (Create_vm name cpu memory ds net) = create_vm m name cpu memory ds net"
| "mutating_handler m (Create_vm_custom name cpu memory disk guest ds net thin ann) =
     create_vm_custom m name cpu memory disk guest ds net thin ann"
| "mutating_handler m (Clone_vm template_name new_name) = clone_vm m template_name new_name"
| "mutating_handler m (Delete_vm name) = delete_vm m name"
| "mutating_handler m (Power_on_vm name) = power_on_vm m name"
| "mutating_handler m (Power_off_vm name) = power_off_vm m name"
| "mutating_handler m (Create_snapshot vm sn d mem q) = create_snapshot m vm sn d mem q"
| "mutating_handler m (Remove_snapshot vm sn rc) = remove_snapshot m vm sn rc"
| "mutating_handler m (Revert_snapshot vm sn) = revert_snapshot m vm sn"
| "mutating_handler m (Remove_all_snapshots vm) = remove_all_snapshots m vm"

text \<open>
  Two machines and two managers for the examples. The control plane of
  \<open>stuck_manager\<close> answers every request with a task that stays \<open>running\<close>; that of
  \<open>quick_manager\<close> with a task that succeeds at the fourth read of its state.
\<close>

definition vm_web :: vim_vm where
  "vm_web = \<lparr>vm_name = ''web'', powerState = poweredOn, vm_snapshot = None,
     vm_parent = Some ''group-v22'', vm_resourcePool = Some pool_b\<rparr>"

definition vm_db :: vim_vm where
  "vm_db = \<lparr>vm_name = ''db'', powerState = poweredOff, vm_snapshot = Some [snap_A],
     vm_parent = None, vm_resourcePool = None\<rparr>"

definition quick_task :: vim_task where
  "quick_task = \<lparr>task_states = (\<lambda>k. if k < 3 then running else success),
     task_state_after = (\<lambda>k. if k < 3 then running else success),
     task_result_truthy = True, task_result_str = ''vm-42'', task_error = None\<rparr>"

definition stuck_manager :: manager where
  "stuck_manager = \<lparr>content = inventory\<lparr>vm_view := [vm_web, vm_db]\<rparr>,
     datacenter_obj = dc_two, resource_pool = pool_b, datastore_obj = ds_large,
     network_obj = None, authenticated = False\<rparr>"

definition quick_manager :: manager where
  "quick_manager = stuck_manager\<lparr>content :=
     (content stuck_manager)\<lparr>task_for := (\<lambda>r. quick_task)\<rparr>\<rparr>"

subsection \<open>The tool handlers and the dispatch\<close>

text \<open>
  \<^verbatim>\<open>
  def _check_auth(self):
      if self.config.api_key:
          if not self.manager.authenticated:
              raise Exception("Unauthorized: API key required.")
  \<close>
\<close>

definition check_auth :: "config \<Rightarrow> manager \<Rightarrow> error + unit" where
  "check_auth cfg m =
     (if truthy (api_key cfg) then
        (if \<not> authenticated m then Inl (Raised Exception ''Unauthorized: API key required.'')
         else Inr ())
      else Inr ())"

text \<open>
  A method of \<^verbatim>\<open>ToolHandlers\<close>: \<^verbatim>\<open>self._check_auth()\<close>, then the method of the
  manager.
\<close>

definition gated :: "config \<Rightarrow> manager \<Rightarrow> 'a outcome \<Rightarrow> 'a outcome" where
  "gated cfg m run = (case check_auth cfg m of Inl e \<Rightarrow> (Some (Inl e), m) | Inr u \<Rightarrow> run)"

text \<open>The \<^verbatim>\<open>arguments\<close> dictionary of a tool call.\<close>

type_synonym arguments = "(string \<times> py_value) list"

text \<open>
  What the theory leaves to the environment: the methods of the manager that it does
  not embed (they read the inventory or talk to a guest, and may change the control
  plane, but no method assigns \<^verbatim>\<open>self.authenticated\<close>), and the text
  \<^verbatim>\<open>json.dumps\<close> and \<^verbatim>\<open>str\<close> give for a value.
\<close>

record env =
  other_method :: "string \<Rightarrow> arguments \<Rightarrow> manager \<Rightarrow> (error + py_value) option \<times> vim_content"
  json_dumps :: "py_value \<Rightarrow> string"
  float_str :: "py_float \<Rightarrow> string"

text \<open>
  The keys of \<^verbatim>\<open>tool_handler_map\<close>, in the order of the source, each with the
  parameters of the method its lambda calls with \<^verbatim>\<open>**args\<close> (those without a default
  and those with one); \<open>None\<close> for a lambda that ignores \<^verbatim>\<open>args\<close>.
\<close>

definition tool_signatures :: "(string \<times> (string list \<times> string list) option) list" where
  "tool_signatures =
    [(''create_vm'', Some ([''name'', ''cpu'', ''memory''], [''datastore'', ''network''])),
     (''clone_vm'', Some ([''template_name'', ''new_name''], [])),
     (''delete_vm'', Some ([''name''], [])),
     (''power_on_vm'', Some ([''name''], [])),
     (''power_off_vm'', Some ([''name''], [])),
     (''list_vms'', None),
     (''get_vm_details'', Some ([''vm_name''], [])),
     (''get_vm_performance'', Some ([''vm_name''], [])),
     (''get_vm_summary_stats'', Some ([''vm_name''], [])),
     (''create_vm_custom'', Some ([''name'', ''cpu'', ''memory''],
        [''disk_size_gb'', ''guest_id'', ''datastore'', ''network'', ''thin_provisioned'',
         ''annotation''])),
     (''list_templates'', None),
     (''list_datastores'', None),
     (''list_datastore_clusters'', None),
     (''list_networks'', None),
     (''list_hosts'', None),
     (''get_host_details'', Some ([''host_name''], [])),
     (''get_host_performance_metrics'', Some ([''host_name''], [])),
     (''get_host_hardware_health'', Some ([''host_name''], [])),
     (''get_host_performance'', Some ([''host_name''], [])),
     (''list_performance_counters'', None),
     (''create_snapshot'', Some ([''vm_name'', ''snapshot_name''],
        [''description'', ''memory'', ''quiesce''])),
     (''remove_snapshot'', Some ([''vm_name'', ''snapshot_name''], [''remove_children''])),
     (''revert_snapshot'', Some ([''vm_name'', ''snapshot_name''], [])),
     (''list_snapshots'', Some ([''vm_name''], [])),
     (''remove_all_snapshots'', Some ([''vm_name''], [])),
     (''execute_program_in_vm'', Some ([''vm_name'', ''username'', ''password'', ''program_path''],
        [''program_arguments''])),
     (''upload_file_to_vm'', Some ([''vm_name'', ''username'', ''password'', ''local_file_path'',
        ''remote_file_path''], [])),
     (''upload_file_to_datastore'', Some ([''datastore_name'', ''local_file_path'',
        ''remote_file_path''], [])),
     (''deploy_ovf'', Some ([''ovf_path'', ''vmdk_path''],
        [''vm_name'', ''datastore_name'', ''resource_pool_name''])),
     (''deploy_ova'', Some ([''ova_path''], [''vm_name'', ''datastore_name'', ''resource_pool_name''])),
     (''wait_for_updates'', Some ([''object_type'', ''properties''],
        [''max_wait_seconds'', ''max_iterations'']))]"

text \<open>
  Python binding \<^verbatim>\<open>**args\<close> to the parameters of a method: a keyword that is no
  parameter, or a parameter without default that is no keyword, raises
  \<^verbatim>\<open>TypeError\<close> before the body of the method runs. The texts of these two
  messages are shortened.
\<close>

definition bind_kwargs :: "string \<Rightarrow> (string list \<times> string list) option \<Rightarrow> arguments \<Rightarrow> error + unit" where
  "bind_kwargs fname signature args =
     (case signature of
        None \<Rightarrow> Inr ()
      | Some (required, optional) \<Rightarrow>
          (case List.find (\<lambda>k. k \<notin> set (required @ optional)) (map fst args) of
             Some k \<Rightarrow>
               Inl (Raised TypeError
                 (fname @ ''() got an unexpected keyword argument '' @ quoted k))
           | None \<Rightarrow>
               (case List.find (\<lambda>p. p \<notin> set (map fst args)) required of
                  Some p \<Rightarrow>
                    Inl (Raised TypeError
                      (fname @ ''() missing required positional argument: '' @ quoted p))
                | None \<Rightarrow> Inr ())))"

text \<open>
  Reading an argument at the type the tool's \<^verbatim>\<open>inputSchema\<close> declares: \<open>None\<close> when
  the value has another type. The \<open>opt\<close> and \<open>or\<close> forms are for parameters with a
  default.
\<close>

definition get_str :: "arguments \<Rightarrow> string \<Rightarrow> string option" where
  "get_str args k = (case map_of args k of Some (PyStr s) \<Rightarrow> Some s | _ \<Rightarrow> None)"

definition get_int :: "arguments \<Rightarrow> string \<Rightarrow> int option" where
  "get_int args k = (case map_of args k of Some (PyInt i) \<Rightarrow> Some i | _ \<Rightarrow> None)"

definition opt_str :: "arguments \<Rightarrow> string \<Rightarrow> string option option" where
  "opt_str args k =
     (case map_of args k of None \<Rightarrow> Some None | Some (PyStr s) \<Rightarrow> Some (Some s) | _ \<Rightarrow> None)"

definition str_or :: "arguments \<Rightarrow> string \<Rightarrow> string \<Rightarrow> string option" where
  "str_or args k d =
     (case map_of args k of None \<Rightarrow> Some d | Some (PyStr s) \<Rightarrow> Some s | _ \<Rightarrow> None)"

definition int_or :: "arguments \<Rightarrow> string \<Rightarrow> int \<Rightarrow> int option" where
  "int_or args k d =
     (case map_of args k of None \<Rightarrow> Some d | Some (PyInt i) \<Rightarrow> Some i | _ \<Rightarrow> None)"

definition bool_or :: "arguments \<Rightarrow> string \<Rightarrow> bool \<Rightarrow> bool option" where
  "bool_or args k d =
     (case map_of args k of None \<Rightarrow> Some d | Some (PyBool b) \<Rightarrow> Some b | _ \<Rightarrow> None)"

text \<open>
  The call of a mutating method that a tool name and its arguments stand for, with the
  defaults of \<^verbatim>\<open>tools.py\<close>; \<open>None\<close> for another tool, or when an argument does not
  have the type of the schema.
\<close>

definition parse_mutating :: "string \<Rightarrow> arguments \<Rightarrow> mutating_call option" where
  "parse_mutating name args =
     (if name = ''create_vm'' then
        (case (get_str args ''name'', get_int args ''cpu'', get_int args ''memory'',
               opt_str args ''datastore'', opt_str args ''network'') of
           (Some n, Some c, Some mem, Some ds, Some net) \<Rightarrow> Some (Create_vm n c mem ds net)
         | _ \<Rightarrow> None)
      else if name = ''create_vm_custom'' then
        (case (get_str args ''name'', get_int args ''cpu'', get_int args ''memory'',
               int_or args ''disk_size_gb'' 10, str_or args ''guest_id'' ''otherGuest'') of
           (Some n, Some c, Some mem, Some disk, Some guest) \<Rightarrow>
             (case (opt_str args ''datastore'', opt_str args ''network'',
                    bool_or args ''thin_provisioned'' True, opt_str args ''annotation'') of
                (Some ds, Some net, Some thin, Some ann) \<Rightarrow>
                  Some (Create_vm_custom n c mem disk guest ds net thin ann)
              | _ \<Rightarrow> None)
         | _ \<Rightarrow> None)
      else if name = ''clone_vm'' then
        (case (get_str args ''template_name'', get_str args ''new_name'') of
           (Some t, Some n) \<Rightarrow> Some (Clone_vm t n)
         | _ \<Rightarrow> None)
      else if name = ''delete_vm'' then map_option Delete_vm (get_str args ''name'')
      else if name = ''power_on_vm'' then map_option Power_on_vm (get_str args ''name'')
      else if name = ''power_off_vm'' then map_option Power_off_vm (get_str args ''name'')
      else if name = ''create_snapshot'' then
        (case (get_str args ''vm_name'', get_str args ''snapshot_name'',
               str_or args ''description'' [], bool_or args ''memory'' False,
               bool_or args ''quiesce'' False) of
           (Some v, Some sn, Some d, Some mem, Some q) \<Rightarrow> Some (Create_snapshot v sn d mem q)
         | _ \<Rightarrow> None)
      else if name = ''remove_snapshot'' then
        (case (get_str args ''vm_name'', get_str args ''snapshot_name'',
               bool_or args ''remove_children'' True) of
           (Some v, Some sn, Some rc) \<Rightarrow> Some (Remove_snapshot v sn rc)
         | _ \<Rightarrow> None)
      else if name = ''revert_snapshot'' then
        (case (get_str args ''vm_name'', get_str args ''snapshot_name'') of
           (Some v, Some sn) \<Rightarrow> Some (Revert_snapshot v sn)
         | _ \<Rightarrow> None)
      else if name = ''remove_all_snapshots'' then
        map_option Remove_all_snapshots (get_str args ''vm_name'')
      else None)"

definition snap_info_value :: "snap_info \<Rightarrow> py_value" where
  "snap_info_value i =
     PyDict [(''name'', PyStr (si_name i)), (''description'', PyStr (si_description i)),
             (''create_time'', PyStr (si_create_time i)), (''state'', PyStr (si_state i)),
             (''level'', PyInt (si_level i))]"

definition map_outcome :: "('a \<Rightarrow> 'b) \<Rightarrow> 'a outcome \<Rightarrow> 'b outcome" where
  "map_outcome f r = (map_option (map_sum id f) (fst r), snd r)"

text \<open>
  The method of the manager behind a tool. The ten mutating methods,
  \<^verbatim>\<open>list_snapshots\<close> and \<^verbatim>\<open>get_host_performance\<close> are the embedded ones;
  \<^verbatim>\<open>deploy_ovf\<close>, \<^verbatim>\<open>deploy_ova\<close> and \<^verbatim>\<open>wait_for_updates\<close> are called by
  \<^verbatim>\<open>tools.py\<close> but \<^verbatim>\<open>VMwareManager\<close> defines no such methods, so the attribute
  lookup raises; the rest, and a call whose arguments are not of the schema's types,
  is the environment's.
\<close>

definition manager_method :: "env \<Rightarrow> string \<Rightarrow> arguments \<Rightarrow> manager \<Rightarrow> py_value outcome" where
  "manager_method ev name args m =
     (let other = (let r = other_method ev name args m in (fst r, m\<lparr>content := snd r\<rparr>))
      in case parse_mutating name args of
           Some call \<Rightarrow> map_outcome PyStr (mutating_handler m call)
         | None \<Rightarrow>
             if name = ''list_snapshots'' then
               (case get_str args ''vm_name'' of
                  Some v \<Rightarrow> map_outcome (\<lambda>l. PyList (map snap_info_value l)) (list_snapshots m v)
                | None \<Rightarrow> other)
             else if name = ''get_host_performance'' then
               (case get_str args ''host_name'' of
                  Some h \<Rightarrow> (Some (map_sum id PyDict (get_host_performance m h)), m)
                | None \<Rightarrow> other)
             else if name \<in> set [''deploy_ovf'', ''deploy_ova'', ''wait_for_updates''] then
               (Some (Inl (Raised AttributeError
                  (quoted ''VMwareManager'' @ '' object has no attribute '' @ quoted name))), m)
             else other)"

text \<open>
  An entry of \<^verbatim>\<open>tool_handler_map\<close>: the lambda binds the arguments and calls the
  method of \<^verbatim>\<open>ToolHandlers\<close>, which checks the authentication and calls the manager.
\<close>

definition tool_handler ::
  "config \<Rightarrow> env \<Rightarrow> string \<Rightarrow> (string list \<times> string list) option \<Rightarrow> arguments \<Rightarrow> manager \<Rightarrow>
   py_value outcome" where
  "tool_handler cfg ev name signature args m =
     (case bind_kwargs name signature args of
        Inl e \<Rightarrow> (Some (Inl e), m)
      | Inr u \<Rightarrow> gated cfg m (manager_method ev name args m))"

text \<open>
  The text of a result: \<^verbatim>\<open>json.dumps(result, indent=2)\<close> for a dictionary or a list,
  \<^verbatim>\<open>str(result)\<close> otherwise.
\<close>

fun result_text :: "env \<Rightarrow> py_value \<Rightarrow> string" where
  "result_text ev (PyDict d) = json_dumps ev (PyDict d)"
| "result_text ev (PyList l) = json_dumps ev (PyList l)"
| "result_text ev (PyStr s) = s"
| "result_text ev PyNone = ''None''"
| "result_text ev (PyBool b) = (if b then ''True'' else ''False'')"
| "result_text ev (PyInt i) = str_int i"
| "result_text ev (PyFloat q) = float_str ev q"

text \<open>
  \<^verbatim>\<open>
  async def call_tool_handler(name: str, arguments: dict):
      if name not in tool_handler_map:
          raise ValueError(f"Unknown tool: {name}")
      handler = tool_handler_map[name]
      result = handler(arguments)
      if isinstance(result, (dict, list)):
          text = json.dumps(result, indent=2)
      else:
          text = str(result)
      return [types.TextContent(type="text", text=text)]
  \<close>
\<close>

definition call_tool_handler ::
  "config \<Rightarrow> env \<Rightarrow> manager \<Rightarrow> string \<Rightarrow> arguments \<Rightarrow> string outcome" where
  "call_tool_handler cfg ev m name arguments =
     (case map_of tool_signatures name of
        None \<Rightarrow> (Some (Inl (Raised ValueError (''Unknown tool: '' @ name))), m)
      | Some signature \<Rightarrow>
          map_outcome (result_text ev) (tool_handler cfg ev name signature arguments m))"

text \<open>
  For the examples: a configuration with an API key, and an environment whose other
  methods return \<^verbatim>\<open>None\<close>.
\<close>

definition cfg_key :: config where
  "cfg_key = cfg_default\<lparr>api_key := Some ''secret''\<rparr>"

definition plain_env :: env where
  "plain_env = \<lparr>other_method = (\<lambda>name args m. (Some (Inr PyNone), content m)),
     json_dumps = (\<lambda>v. ''{}''), float_str = (\<lambda>x. ''0.0'')\<rparr>"

section \<open>Snapshot navigation\<close>

lemma find_over_append:
  "List.find P (xs @ ys) = (case List.find P xs of Some x \<Rightarrow> Some x | None \<Rightarrow> List.find P ys)"
  by (induction xs) auto

lemma find_snapshot_by_name_preorder:
  "find_snapshot_by_name ts name =
     List.find (\<lambda>t. snap_name t = name) (map fst (preorder_depth depth ts))"
proof (induction ts name arbitrary: depth rule: find_snapshot_by_name.induct)
  case (1 name)
  show ?case by simp
next
  case (2 n d c s children snapshots name)
  show ?case
  proof (cases "n = name")
    case True
    then show ?thesis by simp
  next
    case False
    note neq = False
    show ?thesis
    proof (cases "children = []")
      case True
      with neq "2.IH"(3) [of depth] show ?thesis by simp
    next
      case False
      with neq "2.IH"(1) [of "depth + 1"] "2.IH"(2) [of depth]
      show ?thesis by (simp add: find_over_append split: option.splits)
    qed
  qed
qed

lemma collect_snapshots_preorder:
  "collect_snapshots ts result level = result @ map annotate (preorder_depth level ts)"
proof (induction ts result level rule: collect_snapshots.induct)
  case (1 result level)
  show ?case by simp
next
  case (2 n d c s children snapshots result level)
  show ?case
  proof (cases "children = []")
    case True
    with "2.IH"(2) show ?thesis by (simp add: annotate_def Let_def)
  next
    case False
    with "2.IH"(1) "2.IH"(2) show ?thesis by (simp add: annotate_def Let_def)
  qed
qed

text \<open>
  C5. Snapshot search returns the first node, in depth-first pre-order, whose name is
  the one asked for (so of two nodes with the same name the one visited first wins),
  and flattening returns the depth-first pre-order sequence of the nodes, each with its
  depth. On the tree \<open>A -> [B, C -> [D]]\<close> the search for \<open>D\<close> returns \<open>D\<close> and
  flattening gives \<open>[(A,0),(B,1),(C,1),(D,2)]\<close>.
\<close>

theorem snapshot_navigation_preorder:
  "find_snapshot_by_name roots name =
     List.find (\<lambda>t. snap_name t = name) (map fst (preorder_depth 0 roots))
   \<and> collect_snapshots roots [] 0 = map annotate (preorder_depth 0 roots)
   \<and> map (snap_name \<circ> fst) (preorder_depth 0 [snap_A]) = [''A'', ''B'', ''C'', ''D'']
   \<and> find_snapshot_by_name [snap_A] ''D'' = Some snap_D
   \<and> map (\<lambda>i. (si_name i, si_level i)) (collect_snapshots [snap_A] [] 0) =
       [(''A'', 0), (''B'', 1), (''C'', 1), (''D'', 2)]"
proof -
  have ex1: "map (snap_name \<circ> fst) (preorder_depth 0 [snap_A]) = [''A'', ''B'', ''C'', ''D'']"
    by (simp add: snap_A_def snap_B_def snap_C_def snap_D_def)
  have ex2: "find_snapshot_by_name [snap_A] ''D'' = Some snap_D"
    by (simp add: snap_A_def snap_B_def snap_C_def snap_D_def)
  have ex3: "map (\<lambda>i. (si_name i, si_level i)) (collect_snapshots [snap_A] [] 0) =
       [(''A'', 0), (''B'', 1), (''C'', 1), (''D'', 2)]"
    by (simp add: snap_A_def snap_B_def snap_C_def snap_D_def)
  show ?thesis
    using find_snapshot_by_name_preorder [of roots name 0]
      collect_snapshots_preorder [of roots "[]" 0] ex1 ex2 ex3
    by simp
qed

section \<open>Startup resolution of the resource scope\<close>

lemma datacenters_mem: "dc \<in> set (datacenters xs) \<Longrightarrow> Datacenter dc \<in> set xs"
  by (induction xs rule: datacenters.induct) auto

lemma clusters_mem: "(n, pool) \<in> set (clusters xs) \<Longrightarrow> ClusterComputeResource n pool \<in> set xs"
  by (induction xs rule: clusters.induct) auto

lemma datastores_mem: "ds \<in> set (datastores xs) \<Longrightarrow> Datastore ds \<in> set xs"
  by (induction xs rule: datastores.induct) auto

lemma datastores_mem_iff: "ds \<in> set (datastores xs) \<longleftrightarrow> Datastore ds \<in> set xs"
  by (induction xs rule: datastores.induct) auto

lemma find_Some_mem: "List.find P xs = Some x \<Longrightarrow> x \<in> set xs \<and> P x"
  by (induction xs) (auto split: if_splits)

lemma resolve_datacenter_exact:
  "resolve_datacenter cfg c = Inr dc \<Longrightarrow> truthy (datacenter cfg) \<Longrightarrow>
     Datacenter dc \<in> set (rootFolder c) \<and> dc_name dc = the (datacenter cfg)"
  by (auto simp: resolve_datacenter_def split: option.splits dest!: find_Some_mem datacenters_mem)

lemma resolve_resource_pool_exact:
  "resolve_resource_pool cfg dc = Inr pool \<Longrightarrow> truthy (cluster cfg) \<Longrightarrow>
     ClusterComputeResource (the (cluster cfg)) pool \<in> set (hostFolder dc)"
  by (auto simp: resolve_resource_pool_def split: option.splits dest!: find_Some_mem intro: clusters_mem)

lemma resolve_datastore_exact:
  "resolve_datastore cfg dc = Inr ds \<Longrightarrow> truthy (datastore cfg) \<Longrightarrow>
     Datastore ds \<in> set (datastoreFolder dc) \<and> ds_name ds = the (datastore cfg)"
  by (auto simp: resolve_datastore_def split: option.splits dest!: find_Some_mem datastores_mem)

lemma resolve_network_exact:
  "resolve_network cfg dc = Inr net \<Longrightarrow> truthy (network cfg) \<Longrightarrow>
     (\<exists>n. net = Some n \<and> n \<in> set (networkFolder dc) \<and> net_name n = the (network cfg))"
proof -
  assume r: "resolve_network cfg dc = Inr net" and t: "truthy (network cfg)"
  from r t obtain n where
    f: "List.find (\<lambda>net. net_name net = the (network cfg)) (networkFolder dc) = Some n"
    and n: "net = Some n"
    by (auto simp: resolve_network_def split: option.splits)
  from find_Some_mem [OF f] n show ?thesis by simp
qed

lemma resolve_datacenter_error:
  "resolve_datacenter cfg c = Inl e \<Longrightarrow> e \<in> set (configuration_errors cfg)"
  by (auto simp: resolve_datacenter_def configuration_errors_def split: option.splits list.splits if_splits)

lemma resolve_resource_pool_error:
  "resolve_resource_pool cfg dc = Inl e \<Longrightarrow> e \<in> set (configuration_errors cfg)"
  by (auto simp: resolve_resource_pool_def configuration_errors_def split: option.splits list.splits if_splits)

lemma resolve_datastore_error:
  "resolve_datastore cfg dc = Inl e \<Longrightarrow> e \<in> set (configuration_errors cfg)"
  by (auto simp: resolve_datastore_def configuration_errors_def split: option.splits list.splits if_splits)

lemma resolve_network_error:
  "resolve_network cfg dc = Inl e \<Longrightarrow> e \<in> set (configuration_errors cfg)"
  by (auto simp: resolve_network_def configuration_errors_def split: option.splits list.splits if_splits)

lemma connect_vcenter_Inr:
  "connect_vcenter cfg (Inr c) = Inr m \<Longrightarrow>
     content m = c \<and> resolve_datacenter cfg c = Inr (datacenter_obj m) \<and>
     resolve_resource_pool cfg (datacenter_obj m) = Inr (resource_pool m) \<and>
     resolve_datastore cfg (datacenter_obj m) = Inr (datastore_obj m) \<and>
     resolve_network cfg (datacenter_obj m) = Inr (network_obj m) \<and> \<not> authenticated m"
  by (auto simp: connect_vcenter_def split: sum.splits)

lemma connect_vcenter_Inl:
  "connect_vcenter cfg (Inr c) = Inl e \<Longrightarrow> e \<in> set (configuration_errors cfg)"
  by (auto simp: connect_vcenter_def split: sum.splits
      dest: resolve_datacenter_error resolve_resource_pool_error resolve_datastore_error
        resolve_network_error)

text \<open>
  C2. When the connection succeeds, startup resolution either fails with one of the
  exceptions of \<open>configuration_errors\<close> (the failure the specification calls
  ConfigurationError, raised as the built-in \<^verbatim>\<open>Exception\<close>) or returns a manager in which,
  for every explicitly configured name, the bound object is an object of the inventory
  whose name is exactly the configured one: the datacenter among the children of the
  root folder, the resource pool of the cluster of that name in the datacenter, the
  datastore and the network in the datacenter. So a default is never bound in place of
  a name that was given. An explicit name is one that is true in Python: not
  \<^verbatim>\<open>None\<close> and not empty.
\<close>

theorem explicit_names_resolve_exactly:
  "case connect_vcenter cfg (Inr c) of
     Inr m \<Rightarrow>
       (truthy (datacenter cfg) \<longrightarrow>
          Datacenter (datacenter_obj m) \<in> set (rootFolder c) \<and>
          dc_name (datacenter_obj m) = the (datacenter cfg))
     \<and> (truthy (cluster cfg) \<longrightarrow>
          ClusterComputeResource (the (cluster cfg)) (resource_pool m)
            \<in> set (hostFolder (datacenter_obj m)))
     \<and> (truthy (datastore cfg) \<longrightarrow>
          Datastore (datastore_obj m) \<in> set (datastoreFolder (datacenter_obj m)) \<and>
          ds_name (datastore_obj m) = the (datastore cfg))
     \<and> (truthy (network cfg) \<longrightarrow>
          (\<exists>net. network_obj m = Some net \<and> net \<in> set (networkFolder (datacenter_obj m)) \<and>
             net_name net = the (network cfg)))
   | Inl e \<Rightarrow> e \<in> set (configuration_errors cfg)"
proof (cases "connect_vcenter cfg (Inr c)")
  case (Inl e)
  then show ?thesis by (simp add: connect_vcenter_Inl)
next
  case (Inr m)
  note stages = connect_vcenter_Inr [OF Inr]
  from stages have dc: "resolve_datacenter cfg c = Inr (datacenter_obj m)" by simp
  from stages have rp: "resolve_resource_pool cfg (datacenter_obj m) = Inr (resource_pool m)" by simp
  from stages have ds: "resolve_datastore cfg (datacenter_obj m) = Inr (datastore_obj m)" by simp
  from stages have nw: "resolve_network cfg (datacenter_obj m) = Inr (network_obj m)" by simp
  show ?thesis
    using Inr resolve_datacenter_exact [OF dc] resolve_resource_pool_exact [OF rp]
      resolve_datastore_exact [OF ds] resolve_network_exact [OF nw]
    by simp
qed

theorem explicit_names_resolve_exactly_witness:
  "truthy (datacenter cfg_named) \<and> truthy (cluster cfg_named) \<and> truthy (datastore cfg_named)
   \<and> truthy (network cfg_named)
   \<and> (\<exists>m. connect_vcenter cfg_named (Inr inventory) = Inr m \<and> datacenter_obj m = dc_two
          \<and> Datacenter (datacenter_obj m) \<in> set (rootFolder inventory)
          \<and> resource_pool m = pool_b \<and> datastore_obj m = ds_medium
          \<and> network_obj m = Some (DistributedVirtualPortgroup ''dmz'' ''dvportgroup-9'' ''50 2a''))
   \<and> connect_vcenter (cfg_named\<lparr>datastore := Some ''ds-fast''\<rparr>) (Inr inventory) =
       Inl (Raised Exception ''Datastore ds-fast not found'')"
  using explicit_names_resolve_exactly [of cfg_named inventory]
  by (simp add: connect_vcenter_def resolve_datacenter_def resolve_resource_pool_def
      resolve_datastore_def resolve_network_def truthy_def cfg_named_def cfg_default_def
      inventory_def dc_one_def dc_two_def ds_small_def ds_medium_def ds_large_def
      pool_a_def pool_b_def)

lemma py_max_from_mem: "py_max_from key best xs \<in> set (best # xs)"
  by (induction xs arbitrary: best) auto

lemma py_max_from_best: "key best \<le> key (py_max_from key best xs)"
proof (induction xs arbitrary: best)
  case Nil
  show ?case by simp
next
  case (Cons x xs)
  have "key best \<le> key (if key x > key best then x else best)" by simp
  also have "\<dots> \<le> key (py_max_from key (if key x > key best then x else best) xs)"
    by (rule Cons.IH)
  finally show ?case by simp
qed

lemma py_max_from_upper: "x \<in> set (best # xs) \<Longrightarrow> key x \<le> key (py_max_from key best xs)"
proof (induction xs arbitrary: best)
  case Nil
  then show ?case by simp
next
  case (Cons y ys)
  let ?b = "if key y > key best then y else best"
  from Cons.prems consider "x = best" | "x = y" | "x \<in> set ys" by auto
  then show ?case
  proof cases
    case 1
    have "key best \<le> key ?b" by simp
    also have "\<dots> \<le> key (py_max_from key ?b ys)" by (rule py_max_from_best)
    finally show ?thesis using 1 by simp
  next
    case 2
    have "key y \<le> key ?b" by simp
    also have "\<dots> \<le> key (py_max_from key ?b ys)" by (rule py_max_from_best)
    finally show ?thesis using 2 by simp
  next
    case 3
    then have "x \<in> set (?b # ys)" by simp
    from Cons.IH [OF this] show ?thesis by simp
  qed
qed

lemma resolve_datastore_default:
  assumes "resolve_datastore cfg dc = Inr ds" and "\<not> truthy (datastore cfg)"
  shows "Datastore ds \<in> set (datastoreFolder dc) \<and>
         (\<forall>d. Datastore d \<in> set (datastoreFolder dc) \<longrightarrow> ds_freeSpace d \<le> ds_freeSpace ds)"
proof -
  from assms obtain d0 rest where
    l: "datastores (datastoreFolder dc) = d0 # rest" and
    d: "ds = py_max_from ds_freeSpace d0 rest"
    by (auto simp: resolve_datastore_def split: list.splits)
  have "ds \<in> set (datastores (datastoreFolder dc))"
    unfolding l d by (rule py_max_from_mem)
  then have mem: "Datastore ds \<in> set (datastoreFolder dc)" by (rule datastores_mem)
  have "ds_freeSpace x \<le> ds_freeSpace ds" if "Datastore x \<in> set (datastoreFolder dc)" for x
  proof -
    from that have "x \<in> set (d0 # rest)" by (simp add: datastores_mem_iff l [symmetric])
    then show ?thesis unfolding d by (rule py_max_from_upper)
  qed
  with mem show ?thesis by blast
qed

text \<open>
  C7. When no datastore name is configured, the manager that startup resolution
  returns holds a datastore of the datacenter whose free space is the largest among the
  datacenter's datastores. On the datacenter \<open>dc_two\<close>, whose datastores have 10, 50
  and 30 GB free, it is the one with 50.
\<close>

theorem default_datastore_has_most_free_space:
  "(connect_vcenter cfg (Inr c) = Inr m \<and> \<not> truthy (datastore cfg) \<longrightarrow>
      Datastore (datastore_obj m) \<in> set (datastoreFolder (datacenter_obj m)) \<and>
      (\<forall>d. Datastore d \<in> set (datastoreFolder (datacenter_obj m)) \<longrightarrow>
           ds_freeSpace d \<le> ds_freeSpace (datastore_obj m)))
   \<and> map ds_freeSpace (datastores (datastoreFolder dc_two)) =
       [10 * 1024 ^ 3, 50 * 1024 ^ 3, 30 * 1024 ^ 3]
   \<and> resolve_datastore cfg_default dc_two = Inr ds_large
   \<and> ds_freeSpace ds_large = 50 * 1024 ^ 3"
proof -
  have general: "Datastore (datastore_obj m) \<in> set (datastoreFolder (datacenter_obj m)) \<and>
      (\<forall>d. Datastore d \<in> set (datastoreFolder (datacenter_obj m)) \<longrightarrow>
           ds_freeSpace d \<le> ds_freeSpace (datastore_obj m))"
    if ok: "connect_vcenter cfg (Inr c) = Inr m" and unnamed: "\<not> truthy (datastore cfg)"
  proof -
    from connect_vcenter_Inr [OF ok]
    have "resolve_datastore cfg (datacenter_obj m) = Inr (datastore_obj m)" by simp
    from resolve_datastore_default [OF this unnamed] show ?thesis .
  qed
  have ex1: "map ds_freeSpace (datastores (datastoreFolder dc_two)) =
       [10 * 1024 ^ 3, 50 * 1024 ^ 3, 30 * 1024 ^ 3]"
    by (simp add: dc_two_def ds_small_def ds_medium_def ds_large_def)
  have ex2: "resolve_datastore cfg_default dc_two = Inr ds_large"
    by (simp add: resolve_datastore_def truthy_def cfg_default_def dc_two_def ds_small_def
        ds_medium_def ds_large_def)
  have ex3: "ds_freeSpace ds_large = 50 * 1024 ^ 3" by (simp add: ds_large_def)
  from general ex1 ex2 ex3 show ?thesis by blast
qed

theorem default_datastore_has_most_free_space_witness:
  "\<not> truthy (datastore (cfg_default\<lparr>datacenter := Some ''DC2''\<rparr>))
   \<and> (\<exists>m. connect_vcenter (cfg_default\<lparr>datacenter := Some ''DC2''\<rparr>) (Inr inventory) = Inr m
          \<and> datacenter_obj m = dc_two \<and> datastore_obj m = ds_large
          \<and> Datastore ds_small \<in> set (datastoreFolder (datacenter_obj m))
          \<and> ds_freeSpace ds_small \<le> ds_freeSpace (datastore_obj m)
          \<and> ds_freeSpace ds_medium \<le> ds_freeSpace (datastore_obj m))"
proof -
  let ?cfg = "cfg_default\<lparr>datacenter := Some ''DC2''\<rparr>"
  let ?m = "\<lparr>content = inventory, datacenter_obj = dc_two, resource_pool = pool_a,
     datastore_obj = ds_large, network_obj = None, authenticated = False\<rparr>"
  have unnamed: "\<not> truthy (datastore ?cfg)" by (simp add: truthy_def cfg_default_def)
  have ok: "connect_vcenter ?cfg (Inr inventory) = Inr ?m"
    by (simp add: connect_vcenter_def resolve_datacenter_def resolve_resource_pool_def
      resolve_datastore_def resolve_network_def truthy_def cfg_default_def
      inventory_def dc_one_def dc_two_def ds_small_def ds_medium_def ds_large_def
      pool_a_def pool_b_def)
  from default_datastore_has_most_free_space [of ?cfg inventory ?m]
  have "connect_vcenter ?cfg (Inr inventory) = Inr ?m \<and> \<not> truthy (datastore ?cfg) \<longrightarrow>
      Datastore (datastore_obj ?m) \<in> set (datastoreFolder (datacenter_obj ?m)) \<and>
      (\<forall>d. Datastore d \<in> set (datastoreFolder (datacenter_obj ?m)) \<longrightarrow>
           ds_freeSpace d \<le> ds_freeSpace (datastore_obj ?m))" by blast
  with ok unnamed
  have "\<forall>d. Datastore d \<in> set (datastoreFolder (datacenter_obj ?m)) \<longrightarrow>
           ds_freeSpace d \<le> ds_freeSpace (datastore_obj ?m)" by blast
  then have upper: "\<forall>d. Datastore d \<in> set (datastoreFolder dc_two) \<longrightarrow>
      ds_freeSpace d \<le> ds_freeSpace ds_large" by simp
  have s: "Datastore ds_small \<in> set (datastoreFolder dc_two)"
    and md: "Datastore ds_medium \<in> set (datastoreFolder dc_two)"
    by (simp_all add: dc_two_def)
  from upper s md have "ds_freeSpace ds_small \<le> ds_freeSpace ds_large"
    and "ds_freeSpace ds_medium \<le> ds_freeSpace ds_large" by blast+
  with unnamed ok s show ?thesis by simp
qed

section \<open>Waiting for tasks\<close>

lemma busy_wait_Some:
  assumes ret: "busy_wait task k = Some y"
  shows "(y = success \<or> y = error) \<and> (\<exists>j\<ge>k. task_states task j = y)"
proof -
  let ?P = "\<lambda>task k y. (y = success \<or> y = error) \<and> (\<exists>j\<ge>k. task_states task j = y)"
  have step: "?P task k y"
    if IH: "\<And>task k y. f task k = Some y \<Longrightarrow> ?P task k y"
      and eq: "(if task_states task k \<noteq> success \<and> task_states task k \<noteq> error
                then f task (Suc k) else Some (task_states task k)) = Some y"
    for f :: "vim_task \<Rightarrow> nat \<Rightarrow> task_state option" and task k y
  proof (cases "task_states task k \<noteq> success \<and> task_states task k \<noteq> error")
    case True
    with eq have "f task (Suc k) = Some y" by simp
    from IH [OF this] obtain j where "y = success \<or> y = error" "j \<ge> Suc k" "task_states task j = y"
      by blast
    then show ?thesis by (metis Suc_leD)
  next
    case False
    with eq show ?thesis by auto
  qed
  show ?thesis by (rule busy_wait.raw_induct [where P = ?P, OF step ret])
qed

lemma busy_wait_ends:
  "task_states task (k + d) = success \<or> task_states task (k + d) = error \<Longrightarrow>
     \<exists>y. busy_wait task k = Some y"
proof (induction d arbitrary: k)
  case 0
  then show ?case by (subst busy_wait.simps) auto
next
  case (Suc d)
  then have "task_states task (Suc k + d) = success \<or> task_states task (Suc k + d) = error"
    by simp
  from Suc.IH [OF this] obtain y where "busy_wait task (Suc k) = Some y" by blast
  then show ?case by (subst busy_wait.simps) auto
qed

lemma busy_wait_None_iff:
  "busy_wait task 0 = None \<longleftrightarrow>
     (\<forall>k. task_states task k \<noteq> success \<and> task_states task k \<noteq> error)"
proof
  assume none: "busy_wait task 0 = None"
  show "\<forall>k. task_states task k \<noteq> success \<and> task_states task k \<noteq> error"
  proof (rule ccontr)
    assume "\<not> ?thesis"
    then obtain k where "task_states task (0 + k) = success \<or> task_states task (0 + k) = error"
      by auto
    from busy_wait_ends [OF this] none show False by simp
  qed
next
  assume never: "\<forall>k. task_states task k \<noteq> success \<and> task_states task k \<noteq> error"
  show "busy_wait task 0 = None"
  proof (cases "busy_wait task 0")
    case None
    then show ?thesis .
  next
    case (Some y)
    from busy_wait_Some [OF Some] never show ?thesis by metis
  qed
qed

lemma wait_and_report_None_iff:
  "wait_and_report task message = None \<longleftrightarrow>
     (\<forall>k. task_states task k \<noteq> success \<and> task_states task k \<noteq> error)"
  by (simp add: wait_and_report_def busy_wait_None_iff [symmetric] split: option.splits)

lemma wait_for_task_from_deadline:
  assumes late: "of_int timeout < elapsed k0"
    and early: "\<forall>j<k0. elapsed j \<le> of_int timeout"
    and running: "\<forall>j\<le>k0. task_states task j \<noteq> success \<and> task_states task j \<noteq> error"
    and k: "k \<le> k0"
  shows "wait_for_task_from elapsed task timeout k =
     Some [(''status'', PyStr ''timeout''),
           (''message'', PyStr (''Task timed out after '' @ str_int timeout @ '' seconds'')),
           (''task_state'', PyStr (str_task_state (task_state_after task k0)))]"
  using k
proof (induction "k0 - k" arbitrary: k)
  case 0
  then have eq: "k = k0" by simp
  from running eq have "task_states task k \<noteq> success \<and> task_states task k \<noteq> error" by simp
  with late eq show ?case by (subst wait_for_task_from.simps) simp
next
  case (Suc d)
  then have lt: "k < k0" by simp
  with early have "\<not> of_int timeout < elapsed k" by (simp add: not_less)
  moreover from running lt
  have "task_states task k \<noteq> success \<and> task_states task k \<noteq> error" by simp
  moreover from Suc have "d = k0 - Suc k" and "Suc k \<le> k0" by simp_all
  from Suc.hyps(1) [OF this] have "wait_for_task_from elapsed task timeout (Suc k) =
     Some [(''status'', PyStr ''timeout''),
           (''message'', PyStr (''Task timed out after '' @ str_int timeout @ '' seconds'')),
           (''task_state'', PyStr (str_task_state (task_state_after task k0)))]" .
  ultimately show ?case by (subst wait_for_task_from.simps) simp
qed

text \<open>
  When every \<^verbatim>\<open>time.sleep(1)\<close> lets the clock advance by a second or more, there is a
  first pass in which the clock shows more than the timeout.
\<close>

lemma deadline_pass_exists:
  assumes sleeps: "\<forall>k. elapsed k + 1 \<le> (elapsed (Suc k) :: rat)"
  shows "\<exists>k0. of_int timeout < elapsed k0 \<and> (\<forall>j<k0. elapsed j \<le> of_int timeout)"
proof -
  have grow: "elapsed 0 + of_nat k \<le> elapsed k" for k
  proof (induction k)
    case 0
    show ?case by simp
  next
    case (Suc k)
    from sleeps have "elapsed k + 1 \<le> elapsed (Suc k)" by blast
    with Suc show ?case by simp
  qed
  obtain n :: nat where n: "of_int timeout - elapsed 0 < of_nat n"
    using reals_Archimedean2 by blast
  from grow [of n] n have "of_int timeout < elapsed n" by linarith
  then have ex: "\<exists>k. of_int timeout < elapsed k" by blast
  define k0 where "k0 = (LEAST k. of_int timeout < elapsed k)"
  from ex have "of_int timeout < elapsed k0" unfolding k0_def by (rule LeastI_ex)
  moreover have "elapsed j \<le> of_int timeout" if "j < k0" for j
  proof -
    from that have "\<not> of_int timeout < elapsed j" unfolding k0_def by (rule not_less_Least)
    then show ?thesis by simp
  qed
  ultimately show ?thesis by blast
qed

lemma idle_task_never_ends:
  "task_states (task_for (content stuck_manager) req) k \<noteq> success \<and>
   task_states (task_for (content stuck_manager) req) k \<noteq> error"
  by (simp add: stuck_manager_def inventory_def idle_task_def)

text \<open>
  C4. Let every \<^verbatim>\<open>time.sleep(1)\<close> advance the clock by a second or more, and let
  the task be in no terminal state at any read the loop makes, that is, in every pass
  before which the clock has not yet shown more than the timeout. Then
  \<^verbatim>\<open>wait_for_task\<close> returns, in the first pass \<open>k0\<close> whose clock reading is greater
  than the timeout, the dictionary with status \<open>timeout\<close>, which is neither the
  \<open>error\<close> nor the \<open>success\<close> dictionary; being a returned value, it is not an
  exception.
\<close>

theorem wait_for_task_times_out:
  assumes sleeps: "\<forall>k. elapsed k + 1 \<le> elapsed (Suc k)"
    and running: "\<forall>k. (\<forall>j<k. elapsed j \<le> of_int timeout) \<longrightarrow>
                    task_states task k \<noteq> success \<and> task_states task k \<noteq> error"
  shows "\<exists>k0 d. of_int timeout < elapsed k0 \<and> (\<forall>j<k0. elapsed j \<le> of_int timeout)
     \<and> wait_for_task elapsed task timeout = Some d
     \<and> d = [(''status'', PyStr ''timeout''),
            (''message'', PyStr (''Task timed out after '' @ str_int timeout @ '' seconds'')),
            (''task_state'', PyStr (str_task_state (task_state_after task k0)))]
     \<and> map_of d ''status'' = Some (PyStr ''timeout'')
     \<and> map_of d ''status'' \<noteq> Some (PyStr ''error'')
     \<and> map_of d ''status'' \<noteq> Some (PyStr ''success'')"
proof -
  from deadline_pass_exists [OF sleeps, of timeout] obtain k0 where
    late: "of_int timeout < elapsed k0" and early: "\<forall>j<k0. elapsed j \<le> of_int timeout"
    by blast
  let ?d = "[(''status'', PyStr ''timeout''),
            (''message'', PyStr (''Task timed out after '' @ str_int timeout @ '' seconds'')),
            (''task_state'', PyStr (str_task_state (task_state_after task k0)))]"
  have "task_states task j \<noteq> success \<and> task_states task j \<noteq> error" if "j \<le> k0" for j
  proof -
    from that early have "\<forall>i<j. elapsed i \<le> of_int timeout" by simp
    with running show ?thesis by blast
  qed
  then have "\<forall>j\<le>k0. task_states task j \<noteq> success \<and> task_states task j \<noteq> error" by blast
  from wait_for_task_from_deadline [OF late early this, of 0]
  have ret: "wait_for_task elapsed task timeout = Some ?d"
    by (simp add: wait_for_task_def)
  have "map_of ?d ''status'' = Some (PyStr ''timeout'')
     \<and> map_of ?d ''status'' \<noteq> Some (PyStr ''error'')
     \<and> map_of ?d ''status'' \<noteq> Some (PyStr ''success'')" by simp
  with late early ret show ?thesis by blast
qed

lemma ticking_Suc: "ticking (Suc k) = ticking k + 1001 / 1000"
  by (simp add: ticking_def field_simps)

theorem wait_for_task_times_out_witness:
  "wait_for_task ticking late_task 1 =
     Some [(''status'', PyStr ''timeout''),
           (''message'', PyStr ''Task timed out after 1 seconds''),
           (''task_state'', PyStr ''queued'')]
   \<and> task_states late_task 2 = success \<and> ticking 0 \<le> 1 \<and> 1 < ticking 1"
proof -
  have sleeps: "\<forall>k. ticking k + 1 \<le> ticking (Suc k)" by (simp add: ticking_Suc)
  have t0: "ticking 0 \<le> 1" and t1: "1 < ticking 1" by (simp_all add: ticking_def)
  have running: "\<forall>k. (\<forall>j<k. ticking j \<le> of_int 1) \<longrightarrow>
      task_states late_task k \<noteq> success \<and> task_states late_task k \<noteq> error"
  proof (intro allI impI)
    fix k
    assume within: "\<forall>j<k. ticking j \<le> of_int 1"
    have "k < 2"
    proof (rule ccontr)
      assume "\<not> k < 2"
      then have "1 < k" by simp
      with within have "ticking 1 \<le> 1" by simp
      with t1 show False by simp
    qed
    then show "task_states late_task k \<noteq> success \<and> task_states late_task k \<noteq> error"
      by (simp add: late_task_def)
  qed
  from wait_for_task_times_out [OF sleeps running] obtain k0 where
    late: "of_int 1 < ticking k0" and early: "\<forall>j<k0. ticking j \<le> of_int 1"
    and d: "wait_for_task ticking late_task 1 =
      Some [(''status'', PyStr ''timeout''),
            (''message'', PyStr (''Task timed out after '' @ str_int 1 @ '' seconds'')),
            (''task_state'', PyStr (str_task_state (task_state_after late_task k0)))]"
    by blast
  have "k0 = 1"
  proof -
    from late t0 have "k0 \<noteq> 0" by (cases "k0 = 0") simp_all
    moreover have "\<not> 1 < k0"
    proof
      assume "1 < k0"
      with early have "ticking 1 \<le> 1" by simp
      with t1 show False by simp
    qed
    ultimately show ?thesis by simp
  qed
  moreover have "str_int 1 = ''1''"
    by (simp add: str_int_def str_nat.simps digit_char_def)
  ultimately show ?thesis using d t0 t1 by (simp add: late_task_def)
qed

section \<open>The mutating methods\<close>

text \<open>
  C3, as the claim has it, fails: the mutating methods do not go through
  \<^verbatim>\<open>wait_for_task\<close> and have no timeout. With a control plane whose tasks stay
  \<open>running\<close>, \<^verbatim>\<open>power_on_vm\<close> on a machine that is off submits its task and never
  returns, where \<^verbatim>\<open>wait_for_task\<close> on the same task returns the timeout outcome
  once the clock has passed 300 seconds.
\<close>

theorem mutating_handlers_bounded_wait_counterexample:
  "fst (mutating_handler stuck_manager (Power_on_vm ''db'')) = None
   \<and> submitted (content (snd (mutating_handler stuck_manager (Power_on_vm ''db'')))) =
       [PowerOnVM_Task vm_db]
   \<and> (\<exists>d. wait_for_task ticking (task_for (content stuck_manager) (PowerOnVM_Task vm_db)) 300
          = Some d \<and> map_of d ''status'' = Some (PyStr ''timeout''))"
proof -
  have found: "find_vm stuck_manager ''db'' = Some vm_db"
    by (simp add: find_vm_def stuck_manager_def vm_web_def vm_db_def)
  have off: "powerState vm_db \<noteq> poweredOn" by (simp add: vm_db_def)
  have never: "wait_and_report (task_for (content stuck_manager) (PowerOnVM_Task vm_db)) msg = None"
    for msg
    by (simp add: wait_and_report_None_iff idle_task_never_ends)
  have a: "fst (mutating_handler stuck_manager (Power_on_vm ''db'')) = None"
    using found off never by (simp add: power_on_vm_def submit_def)
  have b: "submitted (content (snd (mutating_handler stuck_manager (Power_on_vm ''db'')))) =
       [PowerOnVM_Task vm_db]"
    using found off by (simp add: power_on_vm_def submit_def stuck_manager_def inventory_def)
  have t300: "(300 :: rat) < ticking 300" by (simp add: ticking_def)
  have before: "\<forall>j<300. ticking j \<le> of_int 300"
  proof (intro allI impI)
    fix j :: nat
    assume "j < 300"
    then have "j \<le> 299" by simp
    then have "(of_nat j :: rat) \<le> 299" by (metis of_nat_le_iff of_nat_numeral)
    then show "ticking j \<le> of_int 300" by (simp add: ticking_def)
  qed
  have "\<forall>k \<le> 300.
      task_states (task_for (content stuck_manager) (PowerOnVM_Task vm_db)) k \<noteq> success \<and>
      task_states (task_for (content stuck_manager) (PowerOnVM_Task vm_db)) k \<noteq> error"
    by (simp add: idle_task_never_ends)
  from wait_for_task_from_deadline [of 300 ticking 300, OF _ before this, of 0] t300
  have c: "\<exists>d. wait_for_task ticking (task_for (content stuck_manager) (PowerOnVM_Task vm_db)) 300
         = Some d \<and> map_of d ''status'' = Some (PyStr ''timeout'')"
    by (simp add: wait_for_task_def)
  from a b c show ?thesis by simp
qed

text \<open>
  C3, amended. Each of the ten mutating methods waits for the task it has submitted by
  reading the task's state in a loop of its own, with no timeout and without
  \<^verbatim>\<open>wait_for_task\<close>: whenever the method has handed a request to the control plane,
  it fails to return exactly when the task of that request never reaches \<open>success\<close>
  or \<open>error\<close>.
\<close>

theorem mutating_handlers_wait_without_timeout:
  "submitted (content (snd (mutating_handler m c))) = submitted (content m) @ [req] \<Longrightarrow>
     (fst (mutating_handler m c) = None) =
     (\<forall>k. task_states (task_for (content m) req) k \<noteq> success \<and>
          task_states (task_for (content m) req) k \<noteq> error)"
  by (cases c)
     (auto simp: create_vm_def create_vm_custom_def clone_vm_def delete_vm_def power_on_vm_def
        power_off_vm_def create_snapshot_def remove_snapshot_def revert_snapshot_def
        remove_all_snapshots_def submit_def wait_and_report_None_iff Let_def
        split: option.splits sum.splits if_splits)

theorem mutating_handlers_wait_without_timeout_witness:
  "submitted (content (snd (mutating_handler stuck_manager (Remove_all_snapshots ''db'')))) =
     submitted (content stuck_manager) @ [RemoveAllSnapshots vm_db]
   \<and> fst (mutating_handler stuck_manager (Remove_all_snapshots ''db'')) = None
   \<and> fst (mutating_handler quick_manager (Remove_all_snapshots ''db'')) =
       Some (Inr (''All snapshots removed successfully from VM '' @ quoted ''db''))"
proof -
  have found: "find_vm stuck_manager ''db'' = Some vm_db"
    by (simp add: find_vm_def stuck_manager_def vm_web_def vm_db_def)
  have snaps: "vm_snapshot vm_db = Some [snap_A]" by (simp add: vm_db_def)
  have sub: "submitted (content (snd (mutating_handler stuck_manager (Remove_all_snapshots ''db'')))) =
     submitted (content stuck_manager) @ [RemoveAllSnapshots vm_db]"
    using found snaps by (simp add: remove_all_snapshots_def submit_def)
  from mutating_handlers_wait_without_timeout [OF sub]
  have stuck: "fst (mutating_handler stuck_manager (Remove_all_snapshots ''db'')) = None"
    by (simp add: idle_task_never_ends)
  have found': "find_vm quick_manager ''db'' = Some vm_db"
    by (simp add: find_vm_def quick_manager_def stuck_manager_def vm_web_def vm_db_def)
  have "busy_wait quick_task 0 = Some success"
    by (simp add: busy_wait.simps quick_task_def)
  then have quick: "fst (mutating_handler quick_manager (Remove_all_snapshots ''db'')) =
       Some (Inr (''All snapshots removed successfully from VM '' @ quoted ''db''))"
    using found' snaps
    by (simp add: remove_all_snapshots_def submit_def wait_and_report_def quick_manager_def)
  from sub stuck quick show ?thesis by simp
qed

text \<open>
  C8. \<^verbatim>\<open>power_on_vm\<close> on a machine that is already powered on returns its message and
  leaves the manager, and with it the list of requests the control plane has
  received, as it was; so does \<^verbatim>\<open>power_off_vm\<close> on a machine that is already off.
\<close>

theorem power_idempotence:
  "(find_vm m name = Some vm \<and> powerState vm = poweredOn \<longrightarrow>
      power_on_vm m name = (Some (Inr (''VM '' @ quoted name @ '' is already powered on.'')), m))
   \<and> (find_vm m name = Some vm \<and> powerState vm = poweredOff \<longrightarrow>
      power_off_vm m name = (Some (Inr (''VM '' @ quoted name @ '' is already powered off.'')), m))"
  by (simp add: power_on_vm_def power_off_vm_def)

theorem power_idempotence_witness:
  "find_vm stuck_manager ''web'' = Some vm_web \<and> powerState vm_web = poweredOn
   \<and> power_on_vm stuck_manager ''web'' =
       (Some (Inr (''VM '' @ quoted ''web'' @ '' is already powered on.'')), stuck_manager)
   \<and> submitted (content (snd (power_on_vm stuck_manager ''web''))) = []
   \<and> find_vm stuck_manager ''db'' = Some vm_db \<and> powerState vm_db = poweredOff
   \<and> power_off_vm stuck_manager ''db'' =
       (Some (Inr (''VM '' @ quoted ''db'' @ '' is already powered off.'')), stuck_manager)"
proof -
  have w: "find_vm stuck_manager ''web'' = Some vm_web \<and> powerState vm_web = poweredOn"
    by (simp add: find_vm_def stuck_manager_def vm_web_def vm_db_def)
  have d: "find_vm stuck_manager ''db'' = Some vm_db \<and> powerState vm_db = poweredOff"
    by (simp add: find_vm_def stuck_manager_def vm_web_def vm_db_def)
  have e: "submitted (content stuck_manager) = []"
    by (simp add: stuck_manager_def inventory_def)
  from power_idempotence [of stuck_manager "''web''" vm_web] w
  have on: "power_on_vm stuck_manager ''web'' =
       (Some (Inr (''VM '' @ quoted ''web'' @ '' is already powered on.'')), stuck_manager)"
    by blast
  from power_idempotence [of stuck_manager "''db''" vm_db] d
  have off: "power_off_vm stuck_manager ''db'' =
       (Some (Inr (''VM '' @ quoted ''db'' @ '' is already powered off.'')), stuck_manager)"
    by blast
  from w d e on off show ?thesis by simp
qed

text \<open>
  C10. For a machine that exists and has no snapshots, \<^verbatim>\<open>remove_all_snapshots\<close>
  returns the message that there are no snapshots to remove and hands nothing to the
  control plane (the manager is unchanged), and \<^verbatim>\<open>list_snapshots\<close> returns the empty
  list.
\<close>

theorem no_snapshots_short_circuit:
  "find_vm m vm_name_arg = Some vm \<and> vm_snapshot vm = None \<longrightarrow>
     remove_all_snapshots m vm_name_arg =
       (Some (Inr (''VM '' @ quoted vm_name_arg @ '' has no snapshots to remove'')), m)
     \<and> list_snapshots m vm_name_arg = (Some (Inr []), m)"
  by (simp add: remove_all_snapshots_def list_snapshots_def)

theorem no_snapshots_short_circuit_witness:
  "find_vm stuck_manager ''web'' = Some vm_web \<and> vm_snapshot vm_web = None
   \<and> remove_all_snapshots stuck_manager ''web'' =
       (Some (Inr (''VM '' @ quoted ''web'' @ '' has no snapshots to remove'')), stuck_manager)
   \<and> list_snapshots stuck_manager ''web'' = (Some (Inr []), stuck_manager)
   \<and> submitted (content (snd (remove_all_snapshots stuck_manager ''web''))) = []"
proof -
  have w: "find_vm stuck_manager ''web'' = Some vm_web \<and> vm_snapshot vm_web = None"
    by (simp add: find_vm_def stuck_manager_def vm_web_def vm_db_def)
  have e: "submitted (content stuck_manager) = []"
    by (simp add: stuck_manager_def inventory_def)
  from no_snapshots_short_circuit [of stuck_manager "''web''" vm_web] w
  have "remove_all_snapshots stuck_manager ''web'' =
       (Some (Inr (''VM '' @ quoted ''web'' @ '' has no snapshots to remove'')), stuck_manager)
     \<and> list_snapshots stuck_manager ''web'' = (Some (Inr []), stuck_manager)"
    by blast
  with w e show ?thesis by simp
qed

section \<open>Host utilisation\<close>

subsection \<open>Rounding to the nearest double\<close>

lemma round_half_even_near: "\<bar>of_int (round_half_even q) - q\<bar> \<le> 1 / 2"
proof -
  define f where "f = \<lfloor>q\<rfloor>"
  define d where "d = q - of_int f"
  have d0: "0 \<le> d" and d1: "d < 1" unfolding d_def f_def by linarith+
  have q: "q = of_int f + d" by (simp add: d_def)
  have r: "round_half_even q =
      (if d < 1 / 2 then f else if d > 1 / 2 then f + 1 else if even f then f else f + 1)"
    by (simp add: round_half_even_def Let_def f_def d_def)
  consider "d < 1 / 2" | "d > 1 / 2" | "d = 1 / 2" by linarith
  then show ?thesis
  proof cases
    case 1
    with r have "round_half_even q = f" by simp
    with q d0 1 show ?thesis by simp
  next
    case 2
    with r have "round_half_even q = f + 1" by simp
    with q d1 2 show ?thesis by simp
  next
    case 3
    with r have "round_half_even q = f \<or> round_half_even q = f + 1" by simp
    with q 3 show ?thesis by auto
  qed
qed

lemma round_half_even_nearest:
  assumes "of_int k - 1 / 2 < q" and "q < of_int k + 1 / 2"
  shows "round_half_even q = k"
proof -
  have "\<bar>of_int (round_half_even q) - q\<bar> \<le> 1 / 2" by (rule round_half_even_near)
  with assms have "\<bar>(of_int (round_half_even q) :: rat) - of_int k\<bar> < 1" by linarith
  then have "\<bar>(of_int (round_half_even q - k) :: rat)\<bar> < 1" by simp
  then have "\<bar>round_half_even q - k\<bar> < 1"
    by (metis of_int_abs of_int_less_1_iff)
  then show ?thesis by linarith
qed

lemma round_half_even_of_int: "round_half_even (of_int k) = k"
  by (rule round_half_even_nearest) simp_all

lemma pow2_powi: "pow2 e = 2 powi e"
  by (simp add: pow2_def power_int_def power_inverse [symmetric] inverse_eq_divide power_one_over)

lemma pow2_pos: "0 < pow2 e"
  by (simp add: pow2_powi)

lemma pow2_Suc: "pow2 (e + 1) = 2 * pow2 e"
  by (simp add: pow2_powi power_int_add)

lemma pow2_strict_mono: "a < b \<Longrightarrow> pow2 a < pow2 b"
  by (simp add: pow2_powi power_int_strict_increasing)

lemma pow2_mono: "a \<le> b \<Longrightarrow> pow2 a \<le> pow2 b"
  by (simp add: pow2_powi power_int_increasing)

lemma pow2_less_iff: "pow2 a < pow2 b \<longleftrightarrow> a < b"
proof
  assume l: "pow2 a < pow2 b"
  show "a < b"
  proof (rule ccontr)
    assume "\<not> a < b"
    then have "pow2 b \<le> pow2 a" by (simp add: pow2_mono)
    with l show False by simp
  qed
qed (rule pow2_strict_mono)

lemma ilog2_bounds:
  assumes "0 < x"
  shows "pow2 (ilog2 x) \<le> x \<and> x < pow2 (ilog2 x + 1)"
proof (cases "1 \<le> x")
  case True
  define n where "n = \<lfloor>x\<rfloor>"
  have n: "0 < n" using True by (simp add: n_def)
  have b: "2 ^ nat (bitlen n - 1) \<le> n \<and> n < 2 ^ nat (bitlen n)"
    by (rule bitlen_bounds [OF n])
  have b1: "1 \<le> bitlen n" using n bitlen_eq_zero_iff [of n] bitlen_nonneg [of n] by linarith
  have e: "ilog2 x = bitlen n - 1" using True by (simp add: ilog2_def n_def)
  have "pow2 (bitlen n - 1) = of_int (2 ^ nat (bitlen n - 1))"
    using b1 by (simp add: pow2_def)
  also have "\<dots> \<le> of_int n" using b by (simp only: of_int_le_iff)
  also have "\<dots> \<le> x" by (simp add: n_def)
  finally have lo: "pow2 (ilog2 x) \<le> x" by (simp add: e)
  have "n + 1 \<le> 2 ^ nat (bitlen n)" using b by simp
  then have "(of_int (n + 1) :: rat) \<le> of_int (2 ^ nat (bitlen n))" by (simp only: of_int_le_iff)
  moreover have "x < of_int (n + 1)" unfolding n_def by linarith
  moreover have "pow2 (bitlen n - 1 + 1) = of_int (2 ^ nat (bitlen n))"
    using b1 by (simp add: pow2_def)
  ultimately have "x < pow2 (ilog2 x + 1)" by (simp add: e)
  with lo show ?thesis ..
next
  case False
  define m where "m = \<lceil>1 / x\<rceil> - 1"
  have "1 < 1 / x" using False assms by simp
  then have "2 \<le> \<lceil>1 / x\<rceil>" by linarith
  then have m: "0 < m" by (simp add: m_def)
  have m_lo: "of_int m < 1 / x" and m_hi: "1 / x \<le> of_int m + 1"
    unfolding m_def by linarith+
  have b: "2 ^ nat (bitlen m - 1) \<le> m \<and> m < 2 ^ nat (bitlen m)"
    by (rule bitlen_bounds [OF m])
  have b1: "1 \<le> bitlen m" using m bitlen_eq_zero_iff [of m] bitlen_nonneg [of m] by linarith
  have e: "ilog2 x = - bitlen m" using False by (simp add: ilog2_def m_def)
  have p1: "pow2 (- bitlen m) = 1 / of_int (2 ^ nat (bitlen m))"
    using b1 by (simp add: pow2_def)
  have p2: "pow2 (- bitlen m + 1) = 1 / of_int (2 ^ nat (bitlen m - 1))"
  proof (cases "bitlen m = 1")
    case True then show ?thesis by (simp add: pow2_def)
  next
    case False
    with b1 have "\<not> 0 \<le> - bitlen m + 1" by linarith
    moreover have "- (- bitlen m + 1) = bitlen m - 1" by simp
    ultimately show ?thesis by (simp add: pow2_def)
  qed
  have "m + 1 \<le> 2 ^ nat (bitlen m)" using b by simp
  then have "(of_int (m + 1) :: rat) \<le> of_int (2 ^ nat (bitlen m))" by (simp only: of_int_le_iff)
  moreover from m_hi have "1 / x \<le> of_int (m + 1)" by simp
  ultimately have "1 / x \<le> of_int (2 ^ nat (bitlen m))" by (rule order_trans [rotated])
  then have "1 \<le> of_int (2 ^ nat (bitlen m)) * x"
    using assms by (simp add: field_simps)
  then have lo: "1 / of_int (2 ^ nat (bitlen m)) \<le> x"
    by (simp add: field_simps)
  have "(of_int (2 ^ nat (bitlen m - 1)) :: rat) \<le> of_int m" using b by (simp only: of_int_le_iff)
  from this m_lo have "of_int (2 ^ nat (bitlen m - 1)) < 1 / x" by (rule le_less_trans)
  then have "of_int (2 ^ nat (bitlen m - 1)) * x < 1"
    using assms by (simp add: field_simps)
  then have hi: "x < 1 / of_int (2 ^ nat (bitlen m - 1))"
    by (simp add: field_simps)
  from lo hi show ?thesis by (simp only: e p1 p2)
qed

lemma ilog2_unique:
  assumes "pow2 e \<le> x" and "x < pow2 (e + 1)"
  shows "ilog2 x = e"
proof -
  have x: "0 < x" using assms(1) pow2_pos [of e] by linarith
  from ilog2_bounds [OF x] have lo: "pow2 (ilog2 x) \<le> x" and hi: "x < pow2 (ilog2 x + 1)"
    by simp_all
  from assms(1) hi have "pow2 e < pow2 (ilog2 x + 1)" by linarith
  then have "e < ilog2 x + 1" by (simp only: pow2_less_iff)
  moreover from lo assms(2) have "pow2 (ilog2 x) < pow2 (e + 1)" by linarith
  then have "ilog2 x < e + 1" by (simp only: pow2_less_iff)
  ultimately show ?thesis by linarith
qed

lemma fl_binade:
  assumes "pow2 e \<le> \<bar>x\<bar>" and "\<bar>x\<bar> < pow2 (e + 1)" and "- 1022 \<le> e"
  shows "fl x = of_int (round_half_even (x / pow2 (e - 52))) * pow2 (e - 52)"
proof -
  have "x \<noteq> 0" using assms(1) pow2_pos [of e] by auto
  moreover have "ilog2 \<bar>x\<bar> = e" using assms(1,2) by (rule ilog2_unique)
  ultimately show ?thesis using assms(3) by (simp add: fl_def Let_def max_def)
qed

lemma fl_value:
  assumes "pow2 e \<le> \<bar>x\<bar>" and "\<bar>x\<bar> < pow2 (e + 1)" and "- 1022 \<le> e"
    and "of_int k - 1 / 2 < x / pow2 (e - 52)" and "x / pow2 (e - 52) < of_int k + 1 / 2"
  shows "fl x = of_int k * pow2 (e - 52)"
  using fl_binade [OF assms(1-3)] round_half_even_nearest [OF assms(4,5)] by simp

lemma not_overflows: "\<bar>y\<bar> \<le> 2 ^ n \<Longrightarrow> n < 1024 \<Longrightarrow> \<not> overflows y"
proof -
  assume a: "\<bar>y\<bar> \<le> 2 ^ n" and n: "n < 1024"
  have "(2 :: rat) ^ n < 2 ^ 1024" using n by (intro power_strict_increasing) simp_all
  with a show ?thesis by (simp add: overflows_def)
qed

lemma fl_error: "\<bar>fl x - x\<bar> \<le> (\<bar>x\<bar> + 1) / 2 ^ 53"
proof (cases "x = 0")
  case True
  then show ?thesis by (simp add: fl_def)
next
  case False
  define e where "e = max (ilog2 \<bar>x\<bar>) (- 1022)"
  define u where "u = pow2 (e - 52)"
  have u: "0 < u" by (simp add: u_def pow2_pos)
  have f: "fl x = of_int (round_half_even (x / u)) * u"
    using False by (simp add: fl_def Let_def e_def u_def)
  have "fl x - x = (of_int (round_half_even (x / u)) - x / u) * u"
    using u by (simp add: f algebra_simps)
  then have "\<bar>fl x - x\<bar> = \<bar>of_int (round_half_even (x / u)) - x / u\<bar> * u"
    using u by (simp add: abs_mult)
  also have "\<dots> \<le> 1 / 2 * u"
    using round_half_even_near [of "x / u"] u by (intro mult_right_mono) simp_all
  finally have err: "\<bar>fl x - x\<bar> \<le> u / 2" by simp
  have half: "u / 2 = pow2 (e - 53)"
    using pow2_Suc [of "e - 53"] by (simp add: u_def)
  have p53: "pow2 (- 53) = 1 / 2 ^ 53" by (simp add: pow2_def)
  have "pow2 (e - 53) \<le> (\<bar>x\<bar> + 1) / 2 ^ 53"
  proof (cases "ilog2 \<bar>x\<bar> \<le> - 1022")
    case True
    then have "e = - 1022" by (simp add: e_def)
    then have "pow2 (e - 53) \<le> pow2 (- 53)" by (simp add: pow2_mono)
    also have "\<dots> \<le> (\<bar>x\<bar> + 1) / 2 ^ 53" by (simp add: p53 divide_right_mono)
    finally show ?thesis .
  next
    case False
    then have e: "e = ilog2 \<bar>x\<bar>" by (simp add: e_def)
    have "pow2 (e - 53) = pow2 (e + (- 53))" by simp
    also have "\<dots> = pow2 e * pow2 (- 53)"
      unfolding pow2_powi by (rule power_int_add) simp
    also have "\<dots> = pow2 e / 2 ^ 53" by (simp add: p53)
    also have "pow2 e \<le> \<bar>x\<bar>"
      using ilog2_bounds [of "\<bar>x\<bar>"] \<open>x \<noteq> 0\<close> by (simp add: e)
    then have "pow2 e / 2 ^ 53 \<le> (\<bar>x\<bar> + 1) / 2 ^ 53"
      by (intro divide_right_mono) simp_all
    finally show ?thesis .
  qed
  with err half show ?thesis by simp
qed

lemma fl_zero: "fl 0 = 0"
  by (simp add: fl_def)

lemma py_round2_Finite:
  "py_round2 (Finite q) = Finite (fl (of_int (round_half_even (q * 100)) / 100))"
  by (simp add: py_round2_def)

lemma py_round2_NaN: "py_round2 x = NaN \<longleftrightarrow> x = NaN"
  by (cases x) (simp_all add: py_round2_def)

lemma round_to_float_not_NaN: "round_to_float x \<noteq> NaN"
  by (simp add: round_to_float_def Let_def)

lemma int_truediv_Finite: "int_truediv a b = Inr q \<Longrightarrow> \<exists>y. q = Finite y"
  by (auto simp: int_truediv_def Let_def split: if_splits)

lemma usage_percent_zero_total:
  "total_units \<le> 0 \<Longrightarrow> usage_percent usage total_units = Inr (PyInt 0)"
  by (simp add: usage_percent_def)

lemma usage_percent_formula:
  assumes "total_units > 0"
  shows "usage_percent (Some u) total_units =
     (if overflows (fl (of_int u / of_int total_units))
      then Inl (Raised OverflowError ''integer division result too large for a float'')
      else Inr (PyFloat (py_round2
             (round_to_float (fl (of_int u / of_int total_units) * 100)))))"
  using assms by (simp add: usage_percent_def int_truediv_def Let_def)

lemma usage_percent_no_zero_division:
  "usage_percent usage total_units \<noteq> Inl (Raised ZeroDivisionError msg)"
  by (auto simp: usage_percent_def int_truediv_def Let_def split: option.splits)

lemma usage_percent_not_NaN: "usage_percent usage total_units \<noteq> Inr (PyFloat NaN)"
proof
  assume a: "usage_percent usage total_units = Inr (PyFloat NaN)"
  then obtain u q where q: "int_truediv u total_units = Inr q"
    and n: "py_round2 (float_mul q (Finite 100)) = NaN"
    by (auto simp: usage_percent_def split: if_splits option.splits sum.splits)
  from int_truediv_Finite [OF q] obtain y where "q = Finite y" ..
  with n have "round_to_float (y * 100) = NaN" by (simp add: py_round2_NaN)
  then show False by (simp add: round_to_float_not_NaN)
qed

lemma usage_percent_accurate:
  assumes u: "0 \<le> u" "u \<le> t" and t: "0 < t"
  shows "\<exists>r. usage_percent (Some u) t = Inr (PyFloat (Finite r))
           \<and> \<bar>r - of_int u / of_int t * 100\<bar> \<le> 1 / 200 + 1 / 2 ^ 44"
proof -
  define p :: rat where "p = of_int u / of_int t"
  define q where "q = fl p"
  define y where "y = fl (q * 100)"
  define k where "k = round_half_even (y * 100)"
  define r where "r = fl (of_int k / 100)"
  have p0: "0 \<le> p" and p1: "p \<le> 1" using u t by (simp_all add: p_def)
  have c53: "(2 :: rat) ^ 53 = 9007199254740992" by simp
  have c44: "(2 :: rat) ^ 44 = 17592186044416" by simp
  have "\<bar>q - p\<bar> \<le> (\<bar>p\<bar> + 1) / 2 ^ 53" unfolding q_def by (rule fl_error)
  also have "\<dots> \<le> 2 / 2 ^ 53" using p0 p1 by (intro divide_right_mono) simp_all
  finally have q_err: "\<bar>q - p\<bar> \<le> 2 / 9007199254740992" by (simp only: c53)
  from q_err p0 p1 have q_bd: "\<bar>q\<bar> \<le> 2" by linarith
  from q_err p0 p1 have "\<bar>q\<bar> * 100 \<le> 101" by linarith
  then have q100: "\<bar>q * 100\<bar> \<le> 101" by (simp add: abs_mult)
  have "\<bar>y - q * 100\<bar> \<le> (\<bar>q * 100\<bar> + 1) / 2 ^ 53" unfolding y_def by (rule fl_error)
  also have "\<dots> \<le> 102 / 2 ^ 53" using q100 by (intro divide_right_mono) simp_all
  finally have y_err: "\<bar>y - q * 100\<bar> \<le> 102 / 9007199254740992" by (simp only: c53)
  from y_err q_err have yp: "\<bar>y - p * 100\<bar> \<le> 302 / 9007199254740992" by linarith
  from yp p0 p1 have y_bd: "\<bar>y\<bar> \<le> 101" by linarith
  have "\<bar>of_int k - y * 100\<bar> \<le> 1 / 2" unfolding k_def by (rule round_half_even_near)
  then have k_err: "\<bar>of_int k / 100 - y\<bar> \<le> 1 / 200" by linarith
  from k_err y_bd have k_bd: "\<bar>of_int k / 100 :: rat\<bar> \<le> 102" by linarith
  have "\<bar>r - of_int k / 100\<bar> \<le> (\<bar>of_int k / 100 :: rat\<bar> + 1) / 2 ^ 53"
    unfolding r_def by (rule fl_error)
  also have "\<dots> \<le> 103 / 2 ^ 53" using k_bd by (intro divide_right_mono) simp_all
  finally have r_err: "\<bar>r - of_int k / 100\<bar> \<le> 103 / 9007199254740992" by (simp only: c53)
  from r_err k_err yp have "\<bar>r - p * 100\<bar> \<le> 1 / 200 + 1 / 17592186044416" by linarith
  then have acc: "\<bar>r - p * 100\<bar> \<le> 1 / 200 + 1 / 2 ^ 44" by (simp only: c44)
  have no1: "\<not> overflows q" using q_bd by (intro not_overflows [where n = 1]) simp_all
  have no2: "\<not> overflows y" using y_bd by (intro not_overflows [where n = 7]) simp_all
  have "usage_percent (Some u) t = Inr (PyFloat (Finite r))"
    using t no1 no2
    by (simp add: usage_percent_formula round_to_float_def Let_def py_round2_Finite
        p_def [symmetric] q_def [symmetric] y_def [symmetric] k_def [symmetric] r_def [symmetric])
  with acc show ?thesis unfolding p_def by blast
qed

subsection \<open>The percentages of a host\<close>

lemma get_host_performance_no_zero_division:
  "get_host_performance m name \<noteq> Inl (Raised ZeroDivisionError msg)"
  by (auto simp: get_host_performance_def Let_def usage_percent_no_zero_division
      split: option.splits sum.splits)

lemma get_host_performance_returns:
  assumes "find_host m name = Some host" and "hardware host = Some hw"
    and "usage_percent (quick_stat overallCpuUsage host) (total_cpu_mhz hw) = Inr cpu_percent"
    and "usage_percent (quick_stat overallMemoryUsage host) (total_memory_mb hw) = Inr memory_percent"
  shows "get_host_performance m name =
     Inr [(''cpu_usage_mhz'', opt_int (quick_stat overallCpuUsage host)),
          (''memory_usage_mb'', opt_int (quick_stat overallMemoryUsage host)),
          (''uptime_seconds'', opt_int (quick_stat uptime host)),
          (''cpu_total_mhz'', PyInt (total_cpu_mhz hw)),
          (''cpu_usage_percent'', cpu_percent),
          (''memory_total_mb'', PyInt (total_memory_mb hw)),
          (''memory_usage_percent'', memory_percent)]"
  using assms by (simp add: get_host_performance_def Let_def)

lemma get_host_performance_stats:
  assumes "find_host m name = Some host" and "hardware host = Some hw"
    and "get_host_performance m name = Inr stats"
  shows "\<exists>cpu_percent memory_percent.
     usage_percent (quick_stat overallCpuUsage host) (total_cpu_mhz hw) = Inr cpu_percent
   \<and> usage_percent (quick_stat overallMemoryUsage host) (total_memory_mb hw) = Inr memory_percent
   \<and> stats =
       [(''cpu_usage_mhz'', opt_int (quick_stat overallCpuUsage host)),
        (''memory_usage_mb'', opt_int (quick_stat overallMemoryUsage host)),
        (''uptime_seconds'', opt_int (quick_stat uptime host)),
        (''cpu_total_mhz'', PyInt (total_cpu_mhz hw)),
        (''cpu_usage_percent'', cpu_percent),
        (''memory_total_mb'', PyInt (total_memory_mb hw)),
        (''memory_usage_percent'', memory_percent)]"
  using assms by (auto simp: get_host_performance_def Let_def split: sum.splits)

lemma fl_23_160: "fl (23 / 160) = 2589569785738035 / 18014398509481984"
  using fl_value [where e = "- 3" and x = "23 / 160" and k = 5179139571476070]
  by (simp add: pow2_def)

lemma fl_23_160_times_100:
  "fl (2589569785738035 / 18014398509481984 * 100) = 8092405580431359 / 562949953421312"
  using fl_value [where e = 3 and x = "2589569785738035 / 18014398509481984 * 100"
      and k = 8092405580431359]
  by (simp add: pow2_def)

lemma fl_1437: "fl (1437 / 100) = 8089590830664253 / 562949953421312"
  using fl_value [where e = 3 and x = "1437 / 100" and k = 8089590830664253]
  by (simp add: pow2_def)

lemma round_1437: "round_half_even (8092405580431359 / 562949953421312 * 100) = 1437"
  by (rule round_half_even_nearest) simp_all

lemma fl_10923_32768: "fl (10923 / 32768) = 10923 / 32768"
  using fl_value [where e = "- 2" and x = "10923 / 32768" and k = 6004982755098624]
  by (simp add: pow2_def)

lemma fl_273075_8192: "fl (10923 / 32768 * 100) = 273075 / 8192"
  using fl_value [where e = 5 and x = "10923 / 32768 * 100" and k = 4691392777420800]
  by (simp add: pow2_def)

lemma round_3333: "round_half_even (273075 / 8192 * 100) = 3333"
  by (rule round_half_even_nearest) simp_all

lemma fl_3333: "fl (3333 / 100) = 2345390243441541 / 70368744177664"
  using fl_value [where e = 5 and x = "3333 / 100" and k = 4690780486883082]
  by (simp add: pow2_def)

text \<open>
  C9. A utilisation percentage is \<^verbatim>\<open>round(usage / total * 100, 2)\<close> in the arithmetic
  of Python's floats, and it is the integer 0 whenever the total is 0 (or negative),
  whatever the usage is, \<^verbatim>\<open>None\<close> included: the division is behind the test
  \<open>total > 0\<close>.

  \<^item> For a positive total the value is the float quotient of the two integers,
    times 100.0, rounded to two decimals; the rounding gives the double nearest to
    \<open>k / 100\<close>, where \<open>k\<close> is the integer nearest to 100 times the product.
  \<^item> When the usage is between 0 and the total, the value is a finite float no
    further than \<open>1 / 200 + 1 / 2 ^ 44\<close> from the exact \<open>usage / total * 100\<close>.
  \<^item> The expression never raises \<^verbatim>\<open>ZeroDivisionError\<close> and never gives a NaN, and
    neither does \<^verbatim>\<open>get_host_performance\<close>.
  \<^item> The statistics that \<^verbatim>\<open>get_host_performance\<close> returns for a host with hardware
    are the counters of the host's quick statistics, the totals computed from its
    hardware, and the two percentages of these counters and totals; and it returns
    them whenever both percentages have a value.
\<close>

theorem utilization_percent_guarded:
  "(total_units \<le> 0 \<longrightarrow> usage_percent usage total_units = Inr (PyInt 0))
   \<and> (0 < total_units \<and> \<not> overflows (fl (of_int u / of_int total_units)) \<longrightarrow>
        usage_percent (Some u) total_units =
          Inr (PyFloat (py_round2 (round_to_float (fl (of_int u / of_int total_units) * 100)))))
   \<and> py_round2 (Finite q) = Finite (fl (of_int (round_half_even (q * 100)) / 100))
   \<and> \<bar>of_int (round_half_even (q * 100)) - q * 100\<bar> \<le> 1 / 2
   \<and> (0 \<le> u \<and> u \<le> total_units \<and> 0 < total_units \<longrightarrow>
        (\<exists>r. usage_percent (Some u) total_units = Inr (PyFloat (Finite r))
           \<and> \<bar>r - of_int u / of_int total_units * 100\<bar> \<le> 1 / 200 + 1 / 2 ^ 44))
   \<and> usage_percent usage total_units \<noteq> Inl (Raised ZeroDivisionError msg)
   \<and> usage_percent usage total_units \<noteq> Inr (PyFloat NaN)
   \<and> get_host_performance m name \<noteq> Inl (Raised ZeroDivisionError msg)
   \<and> (find_host m name = Some host \<and> hardware host = Some hw
        \<and> get_host_performance m name = Inr stats \<longrightarrow>
        (\<exists>cpu_percent memory_percent.
           usage_percent (quick_stat overallCpuUsage host) (total_cpu_mhz hw) = Inr cpu_percent
         \<and> usage_percent (quick_stat overallMemoryUsage host) (total_memory_mb hw) =
             Inr memory_percent
         \<and> stats =
             [(''cpu_usage_mhz'', opt_int (quick_stat overallCpuUsage host)),
              (''memory_usage_mb'', opt_int (quick_stat overallMemoryUsage host)),
              (''uptime_seconds'', opt_int (quick_stat uptime host)),
              (''cpu_total_mhz'', PyInt (total_cpu_mhz hw)),
              (''cpu_usage_percent'', cpu_percent),
              (''memory_total_mb'', PyInt (total_memory_mb hw)),
              (''memory_usage_percent'', memory_percent)]))
   \<and> (find_host m name = Some host \<and> hardware host = Some hw
        \<and> usage_percent (quick_stat overallCpuUsage host) (total_cpu_mhz hw) = Inr cpu_percent
        \<and> usage_percent (quick_stat overallMemoryUsage host) (total_memory_mb hw) =
            Inr memory_percent \<longrightarrow>
        get_host_performance m name =
          Inr [(''cpu_usage_mhz'', opt_int (quick_stat overallCpuUsage host)),
               (''memory_usage_mb'', opt_int (quick_stat overallMemoryUsage host)),
               (''uptime_seconds'', opt_int (quick_stat uptime host)),
               (''cpu_total_mhz'', PyInt (total_cpu_mhz hw)),
               (''cpu_usage_percent'', cpu_percent),
               (''memory_total_mb'', PyInt (total_memory_mb hw)),
               (''memory_usage_percent'', memory_percent)])"
proof -
  have guard: "total_units \<le> 0 \<longrightarrow> usage_percent usage total_units = Inr (PyInt 0)"
    by (simp add: usage_percent_zero_total)
  have formula: "0 < total_units \<and> \<not> overflows (fl (of_int u / of_int total_units)) \<longrightarrow>
        usage_percent (Some u) total_units =
          Inr (PyFloat (py_round2 (round_to_float (fl (of_int u / of_int total_units) * 100))))"
    by (simp add: usage_percent_formula)
  have accurate: "0 \<le> u \<and> u \<le> total_units \<and> 0 < total_units \<longrightarrow>
        (\<exists>r. usage_percent (Some u) total_units = Inr (PyFloat (Finite r))
           \<and> \<bar>r - of_int u / of_int total_units * 100\<bar> \<le> 1 / 200 + 1 / 2 ^ 44)"
    using usage_percent_accurate [of u total_units] by blast
  note facts = guard formula py_round2_Finite [of q] round_half_even_near [of "q * 100"]
    accurate usage_percent_no_zero_division [of usage total_units msg]
    usage_percent_not_NaN [of usage total_units]
    get_host_performance_no_zero_division [of m name msg]
    get_host_performance_stats [of m name host hw stats]
    get_host_performance_returns [of m name host hw cpu_percent memory_percent]
  from facts show ?thesis by blast
qed

theorem utilization_percent_guarded_witness:
  "get_host_performance host_manager ''esx2'' =
     Inr [(''cpu_usage_mhz'', PyInt 2760), (''memory_usage_mb'', PyInt 21846),
          (''uptime_seconds'', PyInt 86400), (''cpu_total_mhz'', PyInt 19200),
          (''cpu_usage_percent'', PyFloat (Finite (8089590830664253 / 562949953421312))),
          (''memory_total_mb'', PyInt 65536),
          (''memory_usage_percent'', PyFloat (Finite (2345390243441541 / 70368744177664)))]
   \<and> fl (1437 / 100) = 8089590830664253 / 562949953421312
   \<and> fl (3333 / 100) = 2345390243441541 / 70368744177664
   \<and> usage_percent (Some 23) 160 = Inr (PyFloat (Finite (fl (1437 / 100))))
   \<and> fl (1437 / 100) \<noteq> fl (1438 / 100)
   \<and> get_host_performance host_manager ''esx-blank'' =
       Inr [(''cpu_usage_mhz'', PyInt 0), (''memory_usage_mb'', PyNone),
            (''uptime_seconds'', PyNone), (''cpu_total_mhz'', PyInt 0),
            (''cpu_usage_percent'', PyInt 0), (''memory_total_mb'', PyInt 0),
            (''memory_usage_percent'', PyInt 0)]
   \<and> usage_percent (Some 0) 0 = Inr (PyInt 0)
   \<and> usage_percent None 0 = Inr (PyInt 0)"
proof -
  let ?hw = "\<lparr>cpuInfo = Some \<lparr>numCpuCores = 8, hz = 2400000000\<rparr>, memorySize = 64 * 1024 ^ 3\<rparr>"
  let ?none = "\<lparr>cpuInfo = None, memorySize = 0\<rparr>"
  let ?c = "PyFloat (Finite (8089590830664253 / 562949953421312))"
  let ?m = "PyFloat (Finite (2345390243441541 / 70368744177664))"
  have busy: "find_host host_manager ''esx2'' = Some host_busy"
    by (simp add: find_host_def host_manager_def host_busy_def host_blank_def)
  have blank: "find_host host_manager ''esx-blank'' = Some host_blank"
    by (simp add: find_host_def host_manager_def host_blank_def)
  have hw: "hardware host_busy = Some ?hw" by (simp add: host_busy_def)
  have hw0: "hardware host_blank = Some ?none" by (simp add: host_blank_def)
  have cu: "quick_stat overallCpuUsage host_busy = Some 2760"
    and mu: "quick_stat overallMemoryUsage host_busy = Some 21846"
    and up: "quick_stat uptime host_busy = Some 86400"
    by (simp_all add: quick_stat_def host_busy_def)
  have cu0: "quick_stat overallCpuUsage host_blank = Some 0"
    and mu0: "quick_stat overallMemoryUsage host_blank = None"
    and up0: "quick_stat uptime host_blank = None"
    by (simp_all add: quick_stat_def host_blank_def)
  have ct: "total_cpu_mhz ?hw = 19200" and mt: "total_memory_mb ?hw = 65536"
    by (simp_all add: total_cpu_mhz_def total_memory_mb_def)
  have ct0: "total_cpu_mhz ?none = 0" and mt0: "total_memory_mb ?none = 0"
    by (simp_all add: total_cpu_mhz_def total_memory_mb_def)
  have small: "\<not> overflows (2589569785738035 / 18014398509481984)"
    "\<not> overflows (8092405580431359 / 562949953421312)"
    "\<not> overflows (10923 / 32768)" "\<not> overflows (273075 / 8192)"
    by (simp_all add: overflows_def)
  note guarded = utilization_percent_guarded
  note formula = guarded [THEN conjunct2, THEN conjunct1, rule_format]
  note rounding = guarded [THEN conjunct2, THEN conjunct2, THEN conjunct1]
  have "usage_percent (Some 2760) 19200 =
      Inr (PyFloat (py_round2 (round_to_float (fl (of_int 2760 / of_int 19200) * 100))))"
    by (rule formula) (simp add: fl_23_160 small)
  also have "fl (of_int 2760 / of_int 19200) = 2589569785738035 / 18014398509481984"
    by (simp add: fl_23_160)
  also have "round_to_float (2589569785738035 / 18014398509481984 * 100) =
      Finite (8092405580431359 / 562949953421312)"
    unfolding round_to_float_def Let_def fl_23_160_times_100 using small by simp
  also have "py_round2 (Finite (8092405580431359 / 562949953421312)) =
      Finite (8089590830664253 / 562949953421312)"
    by (simp only: rounding round_1437) (simp add: fl_1437)
  finally have c: "usage_percent (Some 2760) 19200 = Inr ?c" .
  have "usage_percent (Some 23) 160 =
      Inr (PyFloat (py_round2 (round_to_float (fl (of_int 23 / of_int 160) * 100))))"
    by (rule formula) (simp add: fl_23_160 small)
  also have "fl (of_int 23 / of_int 160) = 2589569785738035 / 18014398509481984"
    by (simp add: fl_23_160)
  also have "round_to_float (2589569785738035 / 18014398509481984 * 100) =
      Finite (8092405580431359 / 562949953421312)"
    unfolding round_to_float_def Let_def fl_23_160_times_100 using small by simp
  also have "py_round2 (Finite (8092405580431359 / 562949953421312)) =
      Finite (fl (1437 / 100))"
    by (simp only: rounding round_1437) simp
  finally have c': "usage_percent (Some 23) 160 = Inr (PyFloat (Finite (fl (1437 / 100))))" .
  have "usage_percent (Some 21846) 65536 =
      Inr (PyFloat (py_round2 (round_to_float (fl (of_int 21846 / of_int 65536) * 100))))"
    by (rule formula) (simp add: fl_10923_32768 small)
  also have "fl (of_int 21846 / of_int 65536) = 10923 / 32768"
    by (simp add: fl_10923_32768)
  also have "round_to_float (10923 / 32768 * 100) = Finite (273075 / 8192)"
    unfolding round_to_float_def Let_def fl_273075_8192 using small by simp
  also have "py_round2 (Finite (273075 / 8192)) = Finite (2345390243441541 / 70368744177664)"
    by (simp only: rounding round_3333) (simp add: fl_3333)
  finally have m: "usage_percent (Some 21846) 65536 = Inr ?m" .
  from guarded [of 0 "Some 0"] have z: "usage_percent (Some 0) 0 = Inr (PyInt 0)" by simp
  from guarded [of 0 None] have z': "usage_percent None 0 = Inr (PyInt 0)" by simp
  note returns = conjunct2 [THEN conjunct2, THEN conjunct2, THEN conjunct2, THEN conjunct2,
      THEN conjunct2, THEN conjunct2, THEN conjunct2, THEN conjunct2, rule_format]
  have run: "get_host_performance host_manager ''esx2'' =
     Inr [(''cpu_usage_mhz'', PyInt 2760), (''memory_usage_mb'', PyInt 21846),
          (''uptime_seconds'', PyInt 86400), (''cpu_total_mhz'', PyInt 19200),
          (''cpu_usage_percent'', ?c), (''memory_total_mb'', PyInt 65536),
          (''memory_usage_percent'', ?m)]"
    using returns [OF guarded [of 0 None 0 0 "''m''" host_manager "''esx2''" host_busy ?hw "[]" ?c ?m]]
      busy hw c m
    unfolding cu mu up ct mt opt_int_def by simp
  have run0: "get_host_performance host_manager ''esx-blank'' =
       Inr [(''cpu_usage_mhz'', PyInt 0), (''memory_usage_mb'', PyNone),
            (''uptime_seconds'', PyNone), (''cpu_total_mhz'', PyInt 0),
            (''cpu_usage_percent'', PyInt 0), (''memory_total_mb'', PyInt 0),
            (''memory_usage_percent'', PyInt 0)]"
    using returns [OF guarded [of 0 None 0 0 "''m''" host_manager "''esx-blank''" host_blank ?none
          "[]" "PyInt 0" "PyInt 0"]]
      blank hw0 z z'
    unfolding cu0 mu0 up0 ct0 mt0 opt_int_def by simp
  have ne: "fl (1437 / 100) \<noteq> fl (1438 / 100)"
  proof -
    have "fl (1438 / 100) = 8095220330198467 / 562949953421312"
      using fl_value [where e = 3 and x = "1438 / 100" and k = 8095220330198467]
      by (simp add: pow2_def)
    then show ?thesis by (simp add: fl_1437)
  qed
  from run fl_1437 fl_3333 c' ne run0 z z' show ?thesis by simp
qed

section \<open>The dispatch gateway and the authentication gate\<close>

lemma unregistered_tool_lookup:
  "name \<notin> set (map fst tool_signatures) \<Longrightarrow> map_of tool_signatures name = None"
  by (simp add: map_of_eq_None_iff)

lemma gate_closed:
  "truthy (api_key cfg) \<Longrightarrow> \<not> authenticated m \<Longrightarrow>
     gated cfg m run = (Some (Inl (Raised Exception ''Unauthorized: API key required.'')), m)"
  by (simp add: gated_def check_auth_def)

lemma gate_open:
  "authenticated m \<or> \<not> truthy (api_key cfg) \<Longrightarrow> gated cfg m run = run"
  by (auto simp: gated_def check_auth_def)

text \<open>
  With a key configured and the flag false, a registered tool whose arguments bind is
  refused by the gate, and the manager and the control plane are as before.
\<close>

lemma gate_rejects_registered_tool:
  assumes "truthy (api_key cfg)" and "\<not> authenticated m"
    and "map_of tool_signatures name = Some signature"
    and "bind_kwargs name signature arguments = Inr ()"
  shows "call_tool_handler cfg ev m name arguments =
     (Some (Inl (Raised Exception ''Unauthorized: API key required.'')), m)"
  using assms
  by (simp add: call_tool_handler_def tool_handler_def gate_closed map_outcome_def)

lemma mutating_handler_authenticated:
  "authenticated (snd (mutating_handler m c)) = authenticated m"
  by (cases c)
     (auto simp: create_vm_def create_vm_custom_def clone_vm_def delete_vm_def power_on_vm_def
        power_off_vm_def create_snapshot_def remove_snapshot_def revert_snapshot_def
        remove_all_snapshots_def submit_def Let_def
        split: option.splits sum.splits if_splits)

lemma list_snapshots_manager: "snd (list_snapshots m v) = m"
  by (simp add: list_snapshots_def split: option.splits)

lemma manager_method_authenticated:
  "authenticated (snd (manager_method ev name args m)) = authenticated m"
  by (simp add: manager_method_def Let_def map_outcome_def mutating_handler_authenticated
      list_snapshots_manager split: option.splits)

text \<open>No tool call changes the authentication flag, whatever its name and arguments.\<close>

lemma call_tool_handler_authenticated:
  "authenticated (snd (call_tool_handler cfg ev m name arguments)) = authenticated m"
  by (simp add: call_tool_handler_def tool_handler_def gated_def map_outcome_def
      manager_method_authenticated split: option.splits sum.splits)

text \<open>
  C1. The gate itself is as the claim says (see \<open>gate_rejects_registered_tool\<close> and
  \<open>gate_open\<close>), but the authenticate call the claim relies on does not exist:
  \<^verbatim>\<open>tool_handler_map\<close> has no entry for it and \<^verbatim>\<open>ToolHandlers\<close> no method, although
  \<^verbatim>\<open>__main__.py\<close> tells clients to call the authenticate tool. With the key
  \<open>secret\<close> configured, calling \<open>authenticate\<close> with that key raises
  \<^verbatim>\<open>ValueError\<close> for an unknown tool and leaves the flag false, and the call of
  \<open>list_vms\<close> that follows is still refused as unauthorized.
\<close>

theorem authenticate_tool_missing:
  "truthy (api_key cfg_key) \<and> \<not> authenticated stuck_manager
   \<and> call_tool_handler cfg_key plain_env stuck_manager ''authenticate''
         [(''key'', PyStr ''secret'')] =
       (Some (Inl (Raised ValueError ''Unknown tool: authenticate'')), stuck_manager)
   \<and> call_tool_handler cfg_key plain_env stuck_manager ''list_vms'' [] =
       (Some (Inl (Raised Exception ''Unauthorized: API key required.'')), stuck_manager)"
proof -
  have key: "truthy (api_key cfg_key)" by (simp add: cfg_key_def cfg_default_def truthy_def)
  have flag: "\<not> authenticated stuck_manager" by (simp add: stuck_manager_def)
  have "''authenticate'' \<notin> set (map fst tool_signatures)" by (simp add: tool_signatures_def)
  then have "map_of tool_signatures ''authenticate'' = None" by (rule unregistered_tool_lookup)
  then have first: "call_tool_handler cfg_key plain_env stuck_manager ''authenticate''
         [(''key'', PyStr ''secret'')] =
       (Some (Inl (Raised ValueError ''Unknown tool: authenticate'')), stuck_manager)"
    by (simp add: call_tool_handler_def)
  have "map_of tool_signatures ''list_vms'' = Some None" by (simp add: tool_signatures_def)
  moreover have "bind_kwargs ''list_vms'' None [] = Inr ()" by (simp add: bind_kwargs_def)
  ultimately have second: "call_tool_handler cfg_key plain_env stuck_manager ''list_vms'' [] =
       (Some (Inl (Raised Exception ''Unauthorized: API key required.'')), stuck_manager)"
    using key flag by (rule gate_rejects_registered_tool [rotated 2])
  from key flag first second show ?thesis by simp
qed

text \<open>
  C6, as the claim has it, fails: the error for an unknown operation is not of a
  dedicated kind. The source raises the built-in \<^verbatim>\<open>ValueError\<close>, and no class of the
  program's own.
\<close>

theorem unknown_operation_error_counterexample:
  "''reboot_vm'' \<notin> set (map fst tool_signatures)
   \<and> fst (call_tool_handler cfg_default plain_env stuck_manager ''reboot_vm'' []) =
       Some (Inl (Raised ValueError ''Unknown tool: reboot_vm''))
   \<and> \<not> (\<exists>c msg. fst (call_tool_handler cfg_default plain_env stuck_manager ''reboot_vm'' []) =
            Some (Inl (Raised (UserDefined c) msg)))"
proof -
  have unknown: "''reboot_vm'' \<notin> set (map fst tool_signatures)"
    by (simp add: tool_signatures_def)
  then have "map_of tool_signatures ''reboot_vm'' = None" by (rule unregistered_tool_lookup)
  then have "fst (call_tool_handler cfg_default plain_env stuck_manager ''reboot_vm'' []) =
       Some (Inl (Raised ValueError ''Unknown tool: reboot_vm''))"
    by (simp add: call_tool_handler_def)
  with unknown show ?thesis by simp
qed

text \<open>
  C6, amended. For every operation name that is not exactly a key of
  \<^verbatim>\<open>tool_handler_map\<close>, the gateway raises the built-in \<^verbatim>\<open>ValueError\<close> with the
  message \<open>Unknown tool: \<close> followed by the requested name and nothing else, before
  any handler runs: the manager and the control plane are untouched.
\<close>

theorem unknown_tool_raises_value_error:
  "name \<notin> set (map fst tool_signatures) \<Longrightarrow>
     call_tool_handler cfg ev m name arguments =
       (Some (Inl (Raised ValueError (''Unknown tool: '' @ name))), m)"
proof -
  assume "name \<notin> set (map fst tool_signatures)"
  then have "map_of tool_signatures name = None" by (rule unregistered_tool_lookup)
  then show ?thesis by (simp add: call_tool_handler_def)
qed

theorem unknown_tool_raises_value_error_witness:
  "''Power_On_VM'' \<notin> set (map fst tool_signatures)
   \<and> call_tool_handler cfg_default plain_env quick_manager ''Power_On_VM''
         [(''name'', PyStr ''db'')] =
       (Some (Inl (Raised ValueError ''Unknown tool: Power_On_VM'')), quick_manager)"
proof -
  have unknown: "''Power_On_VM'' \<notin> set (map fst tool_signatures)"
    by (simp add: tool_signatures_def)
  from unknown_tool_raises_value_error [OF unknown] unknown show ?thesis by simp
qed

end
